theory Spec2Isabelle
  imports Complex_Main "HOL-Library.Multiset" "HOL-Library.Mapping" "HOL-Library.Log_Nat"
begin

section \<open>Data model (utils/database, types/news)\<close>

text \<open>
  \<^verbatim>\<open>DatabaseNewsArticle\<close>: the article shape handed to the ranking code. The optional
  fields of the interface are options (\<open>None\<close> is \<^verbatim>\<open>undefined\<close>). \<open>published_at\<close> is an
  ISO timestamp string in the source; here it is the time value in milliseconds that
  \<^verbatim>\<open>new Date(published_at).getTime()\<close> reads from it. Scores are JavaScript numbers:
  reals that are IEEE doubles, because every operation that produces one rounds.
\<close>

record article =
  article_id :: string
  title :: string
  summary :: string
  content :: string
  url :: string
  source :: string
  published_at :: int
  article_keywords :: string
  image_url :: "string option"
  sentiment_score :: real
  sentiment_label :: string
  relevance_score :: "real option"

record performanceMetrics =
  processingTime :: int
  algorithmsUsed :: "string list"

text \<open>\<^verbatim>\<open>PersonalizationContext\<close> holds only the metrics record.\<close>

type_synonym PersonalizationContext = performanceMetrics

record weights =
  keywordMatch :: real
  symbolMatch :: real
  sentimentWeight :: real
  timeDecay :: real

text \<open>The options bundle of \<^verbatim>\<open>rankAndFilterArticles\<close>; every member is optional.\<close>

record rank_options =
  minRelevanceScore :: "real option"
  opt_maxAge :: "int option"
  opt_includeBookmarks :: "bool option"
  opt_weights :: "weights option"
  opt_context :: "PersonalizationContext option"

section \<open>IEEE double arithmetic\<close>

text \<open>
  A JavaScript number literal and the result of \<^verbatim>\<open>*\<close>, \<^verbatim>\<open>+\<close> and \<^verbatim>\<open>-\<close> is the exact
  value rounded to the nearest binary64 number, ties to the even significand.
  \<open>round_even\<close> rounds a real to an integer that way. \<open>to_double\<close> scales by \<open>2 ^ 1074\<close>,
  so that the smallest subnormal step becomes \<open>1\<close>, keeps \<open>53\<close> significant bits
  (\<open>round_scaled\<close>), and scales back. Values beyond the largest double, which round to
  an infinity, do not arise from the numbers handled here and are not treated.
\<close>

definition round_even :: "real \<Rightarrow> int" where
  "round_even q =
     (let f = \<lfloor>q\<rfloor>; d = q - of_int f
      in if d < 1/2 then f else if 1/2 < d then f + 1 else if even f then f else f + 1)"

definition ulp_exponent :: "real \<Rightarrow> nat" where
  "ulp_exponent y = nat (bitlen \<lfloor>y\<rfloor> - 53)"

definition round_scaled :: "real \<Rightarrow> real" where
  "round_scaled y = of_int (round_even (y / 2 ^ ulp_exponent y)) * 2 ^ ulp_exponent y"

text \<open>Rounding to \<open>53\<close> significant bits on the grid of step \<open>2 ^ -N\<close>.\<close>

definition round_to_grid :: "nat \<Rightarrow> real \<Rightarrow> real" where
  "round_to_grid N x = sgn x * (round_scaled (\<bar>x\<bar> * 2 ^ N) / 2 ^ N)"

definition to_double :: "real \<Rightarrow> real" where
  "to_double x = round_to_grid 1074 x"

text \<open>A number is on the grid when it is a whole number of steps; every double is.\<close>

definition on_grid :: "nat \<Rightarrow> real \<Rightarrow> bool" where
  "on_grid N x \<longleftrightarrow> x * 2 ^ N \<in> \<int>"

definition float_mul :: "real \<Rightarrow> real \<Rightarrow> real" where
  "float_mul a b = to_double (a * b)"

definition float_add :: "real \<Rightarrow> real \<Rightarrow> real" where
  "float_add a b = to_double (a + b)"

definition float_sub :: "real \<Rightarrow> real \<Rightarrow> real" where
  "float_sub a b = to_double (a - b)"

section \<open>The random source\<close>

text \<open>
  \<^verbatim>\<open>Math.random()\<close> reads and advances hidden global state. The state is made explicit as
  the sequence of values the next calls will return; a call returns the head and leaves the
  rest. The language guarantees each value \<open>r\<close> satisfies \<open>0 \<le> r < 1\<close>; theorems that need
  this state it as \<open>unit_draws\<close>.
\<close>

type_synonym rng = "nat \<Rightarrow> real"

definition Math_random :: "rng \<Rightarrow> real \<times> rng" where
  "Math_random g = (g 0, (\<lambda>n. g (Suc n)))"

definition unit_draws :: "rng \<Rightarrow> bool" where
  "unit_draws g \<longleftrightarrow> (\<forall>n. 0 \<le> g n \<and> g n < 1)"

section \<open>Array.prototype.sort with a comparator\<close>

text \<open>
  \<^verbatim>\<open>xs.sort(cmp)\<close> is a stable sort: \<open>a\<close> stays before \<open>b\<close> unless \<open>cmp a b > 0\<close>.
  For a consistent comparator every stable sort returns the same list; insertion sort is
  the one written here.
\<close>

fun insert_by :: "('a \<Rightarrow> 'a \<Rightarrow> real) \<Rightarrow> 'a \<Rightarrow> 'a list \<Rightarrow> 'a list" where
  "insert_by cmp x [] = [x]"
| "insert_by cmp x (y # ys) = (if cmp x y \<le> 0 then x # y # ys else y # insert_by cmp x ys)"

definition js_sort :: "('a \<Rightarrow> 'a \<Rightarrow> real) \<Rightarrow> 'a list \<Rightarrow> 'a list" where
  "js_sort cmp xs = foldr (insert_by cmp) xs []"

section \<open>Ranking (utils/personalization)\<close>

definition createPersonalizationContext ::
  "'i list \<Rightarrow> 'p list \<Rightarrow> 'h list \<Rightarrow> article list \<Rightarrow> PersonalizationContext" where
  "createPersonalizationContext userInterests userPortfolio userHistory articles =
     \<lparr>processingTime = 0, algorithmsUsed = [''basic-ranking'']\<rparr>"

text \<open>
  The expression \<^verbatim>\<open>Math.random() * 0.8 + 0.2\<close> of both functions, for the draw \<open>r\<close>: the
  literals are doubles, and the product and the sum are rounded.
\<close>

definition random_score :: "real \<Rightarrow> real" where
  "random_score r = float_add (float_mul r (to_double 0.8)) (to_double 0.2)"

text \<open>
  \<^verbatim>\<open>articles.map(article => ({...article, relevance_score: Math.random() * 0.8 + 0.2}))\<close>:
  one draw per article, in index order.
\<close>

fun score_articles :: "rng \<Rightarrow> article list \<Rightarrow> article list \<times> rng" where
  "score_articles g [] = ([], g)"
| "score_articles g (a # as) =
     (let (r, g1) = Math_random g;
          a' = a\<lparr>relevance_score := Some (random_score r)\<rparr>;
          (as', g2) = score_articles g1 as
      in (a' # as', g2))"

text \<open>\<^verbatim>\<open>x.relevance_score || 0\<close>: \<^verbatim>\<open>undefined\<close> and \<open>0\<close> both read as \<open>0\<close>.\<close>

definition score_or_zero :: "article \<Rightarrow> real" where
  "score_or_zero a = (case relevance_score a of None \<Rightarrow> 0 | Some s \<Rightarrow> s)"

definition by_score_desc :: "article \<Rightarrow> article \<Rightarrow> real" where
  "by_score_desc a b = float_sub (score_or_zero b) (score_or_zero a)"

text \<open>
  The user data and the options are accepted and never read. The result is paired with
  the state of the random source after the call.
\<close>

definition rankAndFilterArticles ::
  "rng \<Rightarrow> article list \<Rightarrow> 'i list \<Rightarrow> 'p list \<Rightarrow> 'h list \<Rightarrow> rank_options
     \<Rightarrow> article list \<times> rng" where
  "rankAndFilterArticles g articles userInterests userPortfolio userHistory options =
     (let (scored, g') = score_articles g articles
      in (js_sort by_score_desc scored, g'))"

definition calculateRelevanceScore ::
  "rng \<Rightarrow> article \<Rightarrow> 'i list \<Rightarrow> 'p list \<Rightarrow> 'h list \<Rightarrow> real \<times> rng" where
  "calculateRelevanceScore g a userInterests userPortfolio userHistory =
     (let (r, g') = Math_random g in (random_score r, g'))"

definition validatePerformance :: "PersonalizationContext \<Rightarrow> bool" where
  "validatePerformance context = True"

text \<open>The options the personalized-news handler passes (route.ts, lines 216-227).\<close>

definition handler_options :: "int \<Rightarrow> bool \<Rightarrow> PersonalizationContext \<Rightarrow> rank_options" where
  "handler_options maxAge includeBookmarks ctx =
     \<lparr>minRelevanceScore = Some (to_double 0.05),
      opt_maxAge = Some maxAge,
      opt_includeBookmarks = Some includeBookmarks,
      opt_weights = Some \<lparr>keywordMatch = to_double 0.4, symbolMatch = to_double 0.3,
                          sentimentWeight = to_double 0.2, timeDecay = to_double 0.1\<rparr>,
      opt_context = Some ctx\<rparr>"

section \<open>The personalized-news handler (app/api/news/personalized/route.ts)\<close>

subsection \<open>JavaScript numbers and the parsing built-ins\<close>

text \<open>
  A JavaScript number is \<^verbatim>\<open>NaN\<close>, an infinity or a finite value. \<^verbatim>\<open>Math.max\<close> and
  \<^verbatim>\<open>Math.min\<close> return \<^verbatim>\<open>NaN\<close> as soon as one argument is \<^verbatim>\<open>NaN\<close>. The parsers below
  return the value that the text denotes, before its rounding to a double; the bounds of
  the clamping are doubles, and rounding is monotone, so a clamped value lies within the
  same bounds after rounding.
\<close>

datatype number = NaN | NegInf | Fin real | PosInf

fun Math_max :: "number \<Rightarrow> number \<Rightarrow> number" where
  "Math_max NaN y = NaN"
| "Math_max x NaN = NaN"
| "Math_max PosInf y = PosInf"
| "Math_max x PosInf = PosInf"
| "Math_max NegInf y = y"
| "Math_max x NegInf = x"
| "Math_max (Fin a) (Fin b) = Fin (max a b)"

fun Math_min :: "number \<Rightarrow> number \<Rightarrow> number" where
  "Math_min NaN y = NaN"
| "Math_min x NaN = NaN"
| "Math_min NegInf y = NegInf"
| "Math_min x NegInf = NegInf"
| "Math_min PosInf y = y"
| "Math_min x PosInf = x"
| "Math_min (Fin a) (Fin b) = Fin (min a b)"

definition isNaN :: "number \<Rightarrow> bool" where
  "isNaN x \<longleftrightarrow> x = NaN"

text \<open>White space that the parsers skip (the ASCII part of \<^verbatim>\<open>StrWhiteSpaceChar\<close>).\<close>

definition is_space :: "char \<Rightarrow> bool" where
  "is_space c \<longleftrightarrow> (of_char c :: nat) \<in> {9, 10, 11, 12, 13, 32}"

text \<open>The value of a character as a digit, up to radix 16.\<close>

definition digit_of :: "char \<Rightarrow> nat option" where
  "digit_of c =
     (let n = (of_char c :: nat)
      in if 48 \<le> n \<and> n \<le> 57 then Some (n - 48)
         else if 97 \<le> n \<and> n \<le> 102 then Some (n - 87)
         else if 65 \<le> n \<and> n \<le> 70 then Some (n - 55)
         else None)"

definition is_digit :: "nat \<Rightarrow> char \<Rightarrow> bool" where
  "is_digit radix c = (case digit_of c of None \<Rightarrow> False | Some d \<Rightarrow> d < radix)"

definition digits_value :: "nat \<Rightarrow> string \<Rightarrow> nat" where
  "digits_value radix ds = foldl (\<lambda>acc c. acc * radix + the (digit_of c)) 0 ds"

text \<open>An optional sign: the factor and the rest of the text.\<close>

fun read_sign :: "string \<Rightarrow> int \<times> string" where
  "read_sign [] = (1, [])"
| "read_sign (c # cs) =
     (if c = CHR ''-'' then (- 1, cs) else if c = CHR ''+'' then (1, cs) else (1, c # cs))"

text \<open>
  \<^verbatim>\<open>parseInt(s)\<close> with no radix: skip white space, read a sign, take radix 16 after a
  \<^verbatim>\<open>0x\<close> prefix and 10 otherwise, and read the longest run of digits; no digit gives
  \<^verbatim>\<open>NaN\<close>. Whatever follows the digits is ignored.
\<close>

definition parseInt :: "string \<Rightarrow> number" where
  "parseInt s =
     (let (sign, s1) = read_sign (dropWhile is_space s);
          (radix, s2) = (if take 2 s1 = ''0x'' \<or> take 2 s1 = ''0X''
                         then (16, drop 2 s1) else (10, s1));
          z = takeWhile (is_digit radix) s2
      in if z = [] then NaN else Fin (of_int (sign * int (digits_value radix z))))"

text \<open>An exponent part \<^verbatim>\<open>e\<close>, optional sign, digits; \<open>0\<close> when there is none.\<close>

definition read_exponent :: "string \<Rightarrow> int" where
  "read_exponent s =
     (case s of
        [] \<Rightarrow> 0
      | c # cs \<Rightarrow>
          if c = CHR ''e'' \<or> c = CHR ''E''
          then (let (sign, ds) = read_sign cs; z = takeWhile (is_digit 10) ds
                in if z = [] then 0 else sign * int (digits_value 10 z))
          else 0)"

definition pow10 :: "int \<Rightarrow> real" where
  "pow10 e = (if 0 \<le> e then 10 ^ nat e else 1 / 10 ^ nat (- e))"

text \<open>
  \<^verbatim>\<open>parseFloat(s)\<close>: skip white space and read the longest prefix that is a decimal
  literal (sign, \<^verbatim>\<open>Infinity\<close> or digits with an optional fraction and exponent); no such
  prefix gives \<^verbatim>\<open>NaN\<close>.
\<close>

definition parseFloat :: "string \<Rightarrow> number" where
  "parseFloat s =
     (let (sign, s1) = read_sign (dropWhile is_space s)
      in if take 8 s1 = ''Infinity'' then (if sign < 0 then NegInf else PosInf)
         else
           (let ip = takeWhile (is_digit 10) s1;
                r1 = dropWhile (is_digit 10) s1;
                fp = (case r1 of [] \<Rightarrow> []
                      | c # cs \<Rightarrow> if c = CHR ''.'' then takeWhile (is_digit 10) cs else []);
                r2 = (case r1 of [] \<Rightarrow> []
                      | c # cs \<Rightarrow> if c = CHR ''.'' then dropWhile (is_digit 10) cs else r1)
            in if ip = [] \<and> fp = [] then NaN
               else Fin (of_int sign * real (digits_value 10 (ip @ fp))
                         * pow10 (read_exponent r2 - int (length fp)))))"

subsection \<open>Query parameters (lines 117-133, and validatePagination of utils/errors)\<close>

text \<open>
  \<^verbatim>\<open>URLSearchParams\<close> is the list of name/value pairs of the query string;
  \<^verbatim>\<open>get\<close> returns the first value of a name, or \<^verbatim>\<open>null\<close>.
\<close>

type_synonym URLSearchParams = "(string \<times> string) list"

definition get :: "URLSearchParams \<Rightarrow> string \<Rightarrow> string option" where
  "get searchParams name = map_of searchParams name"

text \<open>\<^verbatim>\<open>v || d\<close> on an optional string: \<^verbatim>\<open>null\<close> and the empty string are falsy.\<close>

definition truthy :: "string option \<Rightarrow> bool" where
  "truthy v = (case v of None \<Rightarrow> False | Some s \<Rightarrow> s \<noteq> [])"

definition or_default :: "string option \<Rightarrow> string \<Rightarrow> string" where
  "or_default v d = (if truthy v then the v else d)"

definition validatePagination :: "URLSearchParams \<Rightarrow> number \<times> number" where
  "validatePagination searchParams =
     (let page = Math_max (Fin 1) (parseInt (or_default (get searchParams ''page'') ''1''));
          limit = Math_max (Fin 1)
                    (Math_min (Fin 100) (parseInt (or_default (get searchParams ''limit'') ''20'')))
      in (page, limit))"

datatype sort_mode = Relevance | Latest

record request_params =
  page :: number
  limit :: number
  includeBookmarks :: bool
  sortBy :: sort_mode
  minSentiment :: "number option"
  maxAge :: number

text \<open>
  Lines 117-133 of the handler: the parameters it goes on with, or the message of the
  \<^verbatim>\<open>Error\<close> it throws.
\<close>

definition parse_request :: "URLSearchParams \<Rightarrow> string + request_params" where
  "parse_request searchParams =
     (let (page, limit) = validatePagination searchParams;
          includeBookmarks = (get searchParams ''includeBookmarks'' = Some ''true'');
          sortBy = (if get searchParams ''sortBy'' = Some ''latest'' then Latest else Relevance);
          minSentiment =
            (if truthy (get searchParams ''minSentiment'')
             then Some (Math_max (Fin (- 1))
                     (Math_min (Fin 1) (parseFloat (the (get searchParams ''minSentiment'')))))
             else None);
          maxAge = Math_max (Fin 1)
                     (Math_min (Fin 720) (parseInt (or_default (get searchParams ''maxAge'') ''168'')))
      in if truthy (get searchParams ''minSentiment'')
            \<and> isNaN (parseFloat (the (get searchParams ''minSentiment'')))
         then Inl ''Invalid minSentiment parameter: must be a number between -1 and 1''
         else if truthy (get searchParams ''maxAge'')
            \<and> isNaN (parseInt (the (get searchParams ''maxAge'')))
         then Inl ''Invalid maxAge parameter: must be a number between 1 and 720''
         else Inr \<lparr>page = page, limit = limit, includeBookmarks = includeBookmarks,
                   sortBy = sortBy, minSentiment = minSentiment, maxAge = maxAge\<rparr>)"

subsection \<open>Ranking step (lines 209-228)\<close>

definition by_published_desc :: "article \<Rightarrow> article \<Rightarrow> real" where
  "by_published_desc a b =
     float_sub (real_of_int (published_at b)) (real_of_int (published_at a))"

definition rankedArticles ::
  "sort_mode \<Rightarrow> rng \<Rightarrow> article list \<Rightarrow> 'i list \<Rightarrow> 'p list \<Rightarrow> 'h list \<Rightarrow> int \<Rightarrow> bool
     \<Rightarrow> PersonalizationContext \<Rightarrow> article list \<times> rng" where
  "rankedArticles sort_by g articles userInterests userPortfolio userHistory max_age
       include_bookmarks ctx =
     (if sort_by = Latest then (js_sort by_published_desc articles, g)
      else rankAndFilterArticles g articles userInterests userPortfolio userHistory
             (handler_options max_age include_bookmarks ctx))"

subsection \<open>Pagination (lines 233-236 and 279-286)\<close>

text \<open>
  \<^verbatim>\<open>xs.slice(start, end)\<close> for integer arguments: a negative index counts from the end,
  both are clipped to the list, and an empty range gives the empty list.
\<close>

definition slice :: "'a list \<Rightarrow> int \<Rightarrow> int \<Rightarrow> 'a list" where
  "slice xs start finish =
     (let len = int (length xs);
          k = (if start < 0 then max (len + start) 0 else min start len);
          final = (if finish < 0 then max (len + finish) 0 else min finish len)
      in take (nat (final - k)) (drop (nat k) xs))"

record pagination =
  pg_page :: int
  pg_limit :: int
  total :: nat
  hasMore :: bool

text \<open>
  The page of the ranked list and the \<^verbatim>\<open>pagination\<close> member of the response, for the
  integer \<open>page\<close> and \<open>limit\<close> that \<open>validatePagination\<close> yields on numeric input.
\<close>

definition paginate :: "'a list \<Rightarrow> int \<Rightarrow> int \<Rightarrow> 'a list \<times> pagination" where
  "paginate ranked page_no per_page =
     (let startIndex = (page_no - 1) * per_page;
          endIndex = startIndex + per_page;
          paginatedArticles = slice ranked startIndex endIndex
      in (paginatedArticles,
          \<lparr>pg_page = page_no, pg_limit = per_page, total = length ranked,
           hasMore = (endIndex < int (length ranked))\<rparr>))"

section \<open>The in-memory cache (utils/cache)\<close>

text \<open>
  \<^verbatim>\<open>const cache = new Map()\<close> is module state; every function takes it and the writers
  return it updated. \<^verbatim>\<open>Map.get\<close> of a missing key is \<^verbatim>\<open>undefined\<close>, here \<open>None\<close>.
  \<^verbatim>\<open>JSON.stringify\<close> of the filter object is the parameter \<open>stringify\<close>.
\<close>

type_synonym 'v cache = "(string, 'v) mapping"

definition getCachedUserInterests :: "'v cache \<Rightarrow> string \<Rightarrow> 'v option" where
  "getCachedUserInterests cache userId = Mapping.lookup cache (''interests_'' @ userId)"

definition cacheUserInterests :: "'v cache \<Rightarrow> string \<Rightarrow> 'v \<Rightarrow> 'v cache" where
  "cacheUserInterests cache userId d = Mapping.update (''interests_'' @ userId) d cache"

definition getCachedUserPortfolio :: "'v cache \<Rightarrow> string \<Rightarrow> 'v option" where
  "getCachedUserPortfolio cache userId = Mapping.lookup cache (''portfolio_'' @ userId)"

definition cacheUserPortfolio :: "'v cache \<Rightarrow> string \<Rightarrow> 'v \<Rightarrow> 'v cache" where
  "cacheUserPortfolio cache userId d = Mapping.update (''portfolio_'' @ userId) d cache"

definition getCachedNewsArticles :: "('f \<Rightarrow> string) \<Rightarrow> 'v cache \<Rightarrow> 'f \<Rightarrow> 'v option" where
  "getCachedNewsArticles stringify cache filters =
     Mapping.lookup cache (''articles_'' @ stringify filters)"

definition cacheNewsArticles :: "('f \<Rightarrow> string) \<Rightarrow> 'v cache \<Rightarrow> 'f \<Rightarrow> 'v \<Rightarrow> 'v cache" where
  "cacheNewsArticles stringify cache filters d =
     Mapping.update (''articles_'' @ stringify filters) d cache"

definition generateUserCacheKey :: "string \<Rightarrow> string" where
  "generateUserCacheKey userId = ''user_'' @ userId"

definition generateArticlesCacheKey :: "('f \<Rightarrow> string) \<Rightarrow> 'f \<Rightarrow> string" where
  "generateArticlesCacheKey stringify filters = ''articles_'' @ stringify filters"

definition getCacheStats :: "'v cache \<Rightarrow> nat \<times> nat" where
  "getCacheStats cache = (Mapping.size cache, 1000)"

text \<open>
  A history of writes, to state what a read returns after any sequence of them: the calls
  in the order they were made, applied to the cache of a fresh process.
\<close>

datatype ('f, 'v) cache_write =
    CacheUserInterests string 'v
  | CacheUserPortfolio string 'v
  | CacheNewsArticles 'f 'v

fun apply_write :: "('f \<Rightarrow> string) \<Rightarrow> 'v cache \<Rightarrow> ('f, 'v) cache_write \<Rightarrow> 'v cache" where
  "apply_write stringify cache (CacheUserInterests userId d) = cacheUserInterests cache userId d"
| "apply_write stringify cache (CacheUserPortfolio userId d) = cacheUserPortfolio cache userId d"
| "apply_write stringify cache (CacheNewsArticles filters d) =
     cacheNewsArticles stringify cache filters d"

definition after_writes :: "('f \<Rightarrow> string) \<Rightarrow> ('f, 'v) cache_write list \<Rightarrow> 'v cache" where
  "after_writes stringify ws = foldl (apply_write stringify) Mapping.empty ws"

text \<open>
  What the specification promises a read of a user's interests returns after the writes
  \<open>ws\<close>: the value of the most recent write for that user, and nothing if there was none.
\<close>

fun last_interests_written :: "('f, 'v) cache_write list \<Rightarrow> string \<Rightarrow> 'v option" where
  "last_interests_written [] userId = None"
| "last_interests_written (w # ws) userId =
     (case last_interests_written ws userId of
        Some d \<Rightarrow> Some d
      | None \<Rightarrow> (case w of
                  CacheUserInterests u d \<Rightarrow> if u = userId then Some d else None
                | CacheUserPortfolio u d \<Rightarrow> None
                | CacheNewsArticles f d \<Rightarrow> None))"

text \<open>The same for a user's portfolio and for the articles of a filter object.\<close>

fun last_portfolio_written :: "('f, 'v) cache_write list \<Rightarrow> string \<Rightarrow> 'v option" where
  "last_portfolio_written [] userId = None"
| "last_portfolio_written (w # ws) userId =
     (case last_portfolio_written ws userId of
        Some d \<Rightarrow> Some d
      | None \<Rightarrow> (case w of
                  CacheUserInterests u d \<Rightarrow> None
                | CacheUserPortfolio u d \<Rightarrow> if u = userId then Some d else None
                | CacheNewsArticles f d \<Rightarrow> None))"

text \<open>
  Two filter objects name the same entry exactly when their serialisations are equal.
\<close>

fun last_articles_written ::
  "('f \<Rightarrow> string) \<Rightarrow> ('f, 'v) cache_write list \<Rightarrow> 'f \<Rightarrow> 'v option" where
  "last_articles_written stringify [] filters = None"
| "last_articles_written stringify (w # ws) filters =
     (case last_articles_written stringify ws filters of
        Some d \<Rightarrow> Some d
      | None \<Rightarrow> (case w of
                  CacheUserInterests u d \<Rightarrow> None
                | CacheUserPortfolio u d \<Rightarrow> None
                | CacheNewsArticles f d \<Rightarrow>
                    if stringify f = stringify filters then Some d else None))"

section \<open>Data accessors (utils/database)\<close>

text \<open>
  What awaiting a Supabase query resolves to: \<^verbatim>\<open>{ data, error }\<close>, with \<^verbatim>\<open>null\<close> as
  \<open>None\<close>; of the error only its message is read.
\<close>

record 'r response =
  data :: "'r list option"
  error :: "string option"

text \<open>
  The queries on the user tables, as the accessors build them:
  \<^verbatim>\<open>from(table).select(columns).eq('user_id', userId)\<close>, then \<^verbatim>\<open>order\<close> (descending),
  \<^verbatim>\<open>limit\<close> or \<^verbatim>\<open>in('article_id', ids)\<close> where the accessor adds them. The client is what
  answers a query.
\<close>

record user_query =
  from_table :: string
  select_columns :: string
  eq_user_id :: string
  order_descending :: "string option"
  limit_rows :: "int option"
  in_article_id :: "string list option"

definition user_interests_query :: "string \<Rightarrow> user_query" where
  "user_interests_query userId =
     \<lparr>from_table = ''user_interests'', select_columns = ''*'', eq_user_id = userId,
      order_descending = Some ''priority_level'', limit_rows = None, in_article_id = None\<rparr>"

definition fetchUserInterests :: "(user_query \<Rightarrow> 'r response) \<Rightarrow> string \<Rightarrow> 'r list" where
  "fetchUserInterests supabase userId =
     (let r = supabase (user_interests_query userId)
      in if error r \<noteq> None then []
         else (case data r of None \<Rightarrow> [] | Some d \<Rightarrow> d))"

definition user_portfolio_query :: "string \<Rightarrow> user_query" where
  "user_portfolio_query userId =
     \<lparr>from_table = ''user_portfolio'', select_columns = ''*'', eq_user_id = userId,
      order_descending = Some ''weight'', limit_rows = None, in_article_id = None\<rparr>"

definition fetchUserPortfolio :: "(user_query \<Rightarrow> 'r response) \<Rightarrow> string \<Rightarrow> 'r list" where
  "fetchUserPortfolio supabase userId =
     (let r = supabase (user_portfolio_query userId)
      in if error r \<noteq> None then []
         else (case data r of None \<Rightarrow> [] | Some d \<Rightarrow> d))"

definition user_news_history_query :: "string \<Rightarrow> int \<Rightarrow> user_query" where
  "user_news_history_query userId lim_rows =
     \<lparr>from_table = ''user_news_history'', select_columns = ''*'', eq_user_id = userId,
      order_descending = Some ''created_at'', limit_rows = Some lim_rows, in_article_id = None\<rparr>"

definition fetchUserNewsHistory ::
  "(user_query \<Rightarrow> 'r response) \<Rightarrow> string \<Rightarrow> int \<Rightarrow> 'r list" where
  "fetchUserNewsHistory supabase userId lim_rows =
     (let r = supabase (user_news_history_query userId lim_rows)
      in if error r \<noteq> None then []
         else (case data r of None \<Rightarrow> [] | Some d \<Rightarrow> d))"

text \<open>A row of \<^verbatim>\<open>select('article_id')\<close> on the bookmarks table.\<close>

record bookmark_row =
  bookmark_article_id :: string

definition user_bookmarks_query :: "string \<Rightarrow> string list \<Rightarrow> user_query" where
  "user_bookmarks_query userId articleIds =
     \<lparr>from_table = ''user_bookmarks'', select_columns = ''article_id'', eq_user_id = userId,
      order_descending = None, limit_rows = None, in_article_id = Some articleIds\<rparr>"

definition fetchUserBookmarks ::
  "(user_query \<Rightarrow> bookmark_row response) \<Rightarrow> string \<Rightarrow> string list \<Rightarrow> string set" where
  "fetchUserBookmarks supabase userId articleIds =
     (if length articleIds = 0 then {}
      else (let r = supabase (user_bookmarks_query userId articleIds)
            in if error r \<noteq> None then {}
               else set (map bookmark_article_id (case data r of None \<Rightarrow> [] | Some d \<Rightarrow> d))))"

subsection \<open>Articles\<close>

text \<open>
  \<^verbatim>\<open>keywords\<close> of a stored article is typed \<^verbatim>\<open>any\<close>; the code distinguishes an array, a
  string and everything else.
\<close>

datatype stored_keywords = KeywordArray "string list" | KeywordString string | KeywordOther

text \<open>
  \<^verbatim>\<open>SupabaseNewsArticle\<close>, the fields that the query and the conversion read.
  \<open>row_published_at\<close> is the stored timestamp in milliseconds; \<open>source_domain\<close> and
  \<open>sentiment\<close> may be \<^verbatim>\<open>null\<close>.
\<close>

record SupabaseNewsArticle =
  row_id :: string
  row_title :: string
  row_summary :: string
  row_content :: string
  row_url :: string
  row_published_at :: int
  category :: string
  source_domain :: "string option"
  is_active :: bool
  sentiment :: "string option"
  row_keywords :: stored_keywords

text \<open>\<^verbatim>\<open>toLowerCase\<close> on ASCII letters.\<close>

definition lower_char :: "char \<Rightarrow> char" where
  "lower_char c =
     (let n = (of_char c :: nat) in if 65 \<le> n \<and> n \<le> 90 then char_of (n + 32) else c)"

definition toLowerCase :: "string \<Rightarrow> string" where
  "toLowerCase s = map lower_char s"

text \<open>\<^verbatim>\<open>switch (sentiment?.toLowerCase())\<close>: a missing label takes the default branch.\<close>

definition mapSentimentToScore :: "string option \<Rightarrow> real" where
  "mapSentimentToScore s =
     (case s of
        None \<Rightarrow> 0.0
      | Some l \<Rightarrow>
          if toLowerCase l = ''positive'' then to_double 0.7
          else if toLowerCase l = ''negative'' then - to_double 0.3
          else 0.0)"

text \<open>\<^verbatim>\<open>xs.join(',')\<close>.\<close>

fun join_comma :: "string list \<Rightarrow> string" where
  "join_comma [] = []"
| "join_comma [x] = x"
| "join_comma (x # y # ys) = x @ '','' @ join_comma (y # ys)"

definition transformSupabaseToFlutter :: "SupabaseNewsArticle \<Rightarrow> article" where
  "transformSupabaseToFlutter supabaseArticle =
     \<lparr>article_id = row_id supabaseArticle,
      title = row_title supabaseArticle,
      summary = row_summary supabaseArticle,
      content = row_content supabaseArticle,
      url = row_url supabaseArticle,
      source = (if truthy (source_domain supabaseArticle) then the (source_domain supabaseArticle)
                else if category supabaseArticle \<noteq> [] then category supabaseArticle
                else ''Unknown''),
      published_at = row_published_at supabaseArticle,
      article_keywords = (case row_keywords supabaseArticle of
                            KeywordArray ks \<Rightarrow> join_comma ks
                          | KeywordString k \<Rightarrow> k
                          | KeywordOther \<Rightarrow> []),
      image_url = None,
      sentiment_score = mapSentimentToScore (sentiment supabaseArticle),
      sentiment_label = (if truthy (sentiment supabaseArticle) then the (sentiment supabaseArticle)
                         else ''neutral''),
      relevance_score = None\<rparr>"

text \<open>
  The query on \<^verbatim>\<open>news_articles\<close>:
  \<^verbatim>\<open>select('*').eq('is_active', true).order('published_at', {ascending: false}).range(from, to)\<close>
  and, where a maximal age is given, \<^verbatim>\<open>.gte('published_at', cutoff)\<close>.
\<close>

record news_query =
  eq_is_active :: bool
  range_from :: int
  range_to :: int
  gte_published_at :: "int option"

record news_filters =
  f_limit :: "int option"
  f_maxAge :: "int option"
  f_page :: "int option"
  f_minSentiment :: "real option"

text \<open>
  The time zone of the process, as the language sees it: the offset of local time from
  UTC in milliseconds, for an instant (\<^verbatim>\<open>LocalTZA(t, true)\<close>) and for a local time
  value (\<^verbatim>\<open>LocalTZA(t, false)\<close>).
\<close>

record time_zone =
  offset_at_instant :: "int \<Rightarrow> int"
  offset_at_local :: "int \<Rightarrow> int"

definition LocalTime :: "time_zone \<Rightarrow> int \<Rightarrow> int" where
  "LocalTime tz t = t + offset_at_instant tz t"

definition UTC :: "time_zone \<Rightarrow> int \<Rightarrow> int" where
  "UTC tz t = t - offset_at_local tz t"

text \<open>
  \<^verbatim>\<open>d.setHours(d.getHours() - h)\<close> on a date with time value \<open>t\<close>: the hour field of the
  local time is lowered by \<open>h\<close>, the other fields stay, and the local time obtained is
  read back as an instant.
\<close>

definition setHours_back :: "time_zone \<Rightarrow> int \<Rightarrow> int \<Rightarrow> int" where
  "setHours_back tz t h = UTC tz (LocalTime tz t - h * 3600000)"

text \<open>
  \<open>now\<close> is the clock reading of \<^verbatim>\<open>new Date()\<close> in milliseconds and \<open>tz\<close> the time zone
  of the process. \<^verbatim>\<open>if (filters.maxAge)\<close> is false for \<^verbatim>\<open>undefined\<close> and for \<open>0\<close>.
\<close>

definition news_articles_query :: "news_filters \<Rightarrow> int \<Rightarrow> time_zone \<Rightarrow> news_query" where
  "news_articles_query filters now tz =
     (let lim_rows = (case f_limit filters of None \<Rightarrow> 20 | Some l \<Rightarrow> l);
          page_no = (case f_page filters of None \<Rightarrow> 1 | Some p \<Rightarrow> p);
          from = (page_no - 1) * lim_rows;
          to = from + lim_rows - 1
      in \<lparr>eq_is_active = True, range_from = from, range_to = to,
          gte_published_at =
            (case f_maxAge filters of
               None \<Rightarrow> None
             | Some h \<Rightarrow> if h \<noteq> 0 then Some (setHours_back tz now h) else None)\<rparr>)"

definition fetchNewsArticles ::
  "(news_query \<Rightarrow> SupabaseNewsArticle response) \<Rightarrow> news_filters \<Rightarrow> int \<Rightarrow> time_zone
     \<Rightarrow> article list" where
  "fetchNewsArticles supabase filters now tz =
     (let r = supabase (news_articles_query filters now tz)
      in if error r \<noteq> None then []
         else (let transformedArticles =
                     map transformSupabaseToFlutter (case data r of None \<Rightarrow> [] | Some d \<Rightarrow> d)
               in case f_minSentiment filters of
                    None \<Rightarrow> transformedArticles
                  | Some m \<Rightarrow> filter (\<lambda>a. sentiment_score a \<ge> m) transformedArticles))"

subsection \<open>The backing store\<close>

text \<open>
  The store behind the client: the rows of \<^verbatim>\<open>news_articles\<close> and, when it is failing, the
  message of the error it reports for every query. A working store answers a query with
  the rows that pass its filters, newest first, cut to the requested range of offsets.
\<close>

record news_store =
  stored_rows :: "SupabaseNewsArticle list"
  failure :: "string option"

definition answer_news_query :: "news_store \<Rightarrow> news_query \<Rightarrow> SupabaseNewsArticle response" where
  "answer_news_query store q =
     (case failure store of
        Some msg \<Rightarrow> \<lparr>data = None, error = Some msg\<rparr>
      | None \<Rightarrow>
          (let passing = filter (\<lambda>r. is_active r = eq_is_active q \<and>
                                  (case gte_published_at q of None \<Rightarrow> True
                                   | Some c \<Rightarrow> c \<le> row_published_at r))
                           (stored_rows store);
               ordered = sort_key (\<lambda>r. - row_published_at r) passing
           in \<lparr>data = Some (take (nat (range_to q + 1) - nat (range_from q))
                              (drop (nat (range_from q)) ordered)),
               error = None\<rparr>))"

text \<open>A client whose every query fails with the given message.\<close>

definition failing_client :: "string \<Rightarrow> 'q \<Rightarrow> 'r response" where
  "failing_client msg q = \<lparr>data = None, error = Some msg\<rparr>"

section \<open>Concrete inputs for the examples\<close>

text \<open>A random source that returns the listed values and then \<open>0\<close>.\<close>

definition draws_from :: "real list \<Rightarrow> rng" where
  "draws_from rs n = (if n < length rs then rs ! n else 0)"

text \<open>The largest double below \<open>1\<close>.\<close>

definition largest_draw :: real where
  "largest_draw = 1 - 1 / 2 ^ 53"

definition sample_article :: "string \<Rightarrow> int \<Rightarrow> article" where
  "sample_article i t =
     \<lparr>article_id = i, title = ''t'', summary = ''s'', content = ''c'', url = ''u'',
      source = ''src'', published_at = t, article_keywords = [], image_url = None,
      sentiment_score = 0, sentiment_label = ''neutral'', relevance_score = None\<rparr>"

definition options_min :: "real \<Rightarrow> rank_options" where
  "options_min m =
     \<lparr>minRelevanceScore = Some m, opt_maxAge = None, opt_includeBookmarks = None,
      opt_weights = None, opt_context = None\<rparr>"

definition sample_row :: "string \<Rightarrow> int \<Rightarrow> bool \<Rightarrow> string option \<Rightarrow> SupabaseNewsArticle" where
  "sample_row i t act s =
     \<lparr>row_id = i, row_title = ''t'', row_summary = ''s'', row_content = ''c'', row_url = ''u'',
      row_published_at = t, category = ''markets'', source_domain = None, is_active = act,
      sentiment = s, row_keywords = KeywordOther\<rparr>"

text \<open>
  A working store with four rows, read at the clock value \<open>200000000\<close>: one older than a
  day, one inactive, one recent with a negative label and one recent with a positive label.
\<close>

definition sample_store :: news_store where
  "sample_store =
     \<lparr>stored_rows = [sample_row ''old'' 0 True (Some ''Positive''),
                     sample_row ''off'' 200000000 False (Some ''positive''),
                     sample_row ''neg'' 200000000 True (Some ''negative''),
                     sample_row ''pos'' 150000000 True (Some ''POSITIVE'')],
      failure = None\<rparr>"

definition sample_filters :: news_filters where
  "sample_filters =
     \<lparr>f_limit = Some 10, f_maxAge = Some 24, f_page = None, f_minSentiment = Some (1/2)\<rparr>"

text \<open>A zone that keeps UTC, and one that keeps a fixed offset.\<close>

definition fixed_zone :: "int \<Rightarrow> time_zone" where
  "fixed_zone off = \<lparr>offset_at_instant = (\<lambda>t. off), offset_at_local = (\<lambda>t. off)\<rparr>"

text \<open>
  Central European time around the end of summer time in 2024: two hours ahead of UTC
  until 2024-10-27T01:00:00Z (\<open>1729990800000\<close>), one hour ahead from then on. A local time
  value before 03:00 of that day is read with the summer offset.
\<close>

definition berlin_autumn_2024 :: time_zone where
  "berlin_autumn_2024 =
     \<lparr>offset_at_instant = (\<lambda>t. if t < 1729990800000 then 7200000 else 3600000),
      offset_at_local = (\<lambda>t. if t < 1729990800000 + 7200000 then 7200000 else 3600000)\<rparr>"

text \<open>
  A store with one active article published at 2024-10-23T11:30:00Z
  (\<open>1729683000000\<close>), read at 2024-10-30T12:00:00Z (\<open>1730289600000\<close>), which is
  \<open>168.5\<close> hours later, with a maximal age of \<open>168\<close> hours.
\<close>

definition week_old_store :: news_store where
  "week_old_store =
     \<lparr>stored_rows = [sample_row ''stale'' 1729683000000 True (Some ''neutral'')],
      failure = None\<rparr>"

definition week_filters :: news_filters where
  "week_filters =
     \<lparr>f_limit = Some 10, f_maxAge = Some 168, f_page = None, f_minSentiment = None\<rparr>"

section \<open>Facts about double rounding\<close>

lemma round_even_bounds: "\<lfloor>q\<rfloor> \<le> round_even q \<and> round_even q \<le> \<lfloor>q\<rfloor> + 1"
  by (simp add: round_even_def Let_def)

lemma round_even_of_int [simp]: "round_even (of_int k) = k"
  by (simp add: round_even_def)

lemma round_even_zero [simp]: "round_even 0 = 0"
  by (simp add: round_even_def)

lemma round_even_ge: "of_int k \<le> q \<Longrightarrow> k \<le> round_even q"
  using round_even_bounds [of q] by (simp add: le_floor_iff [symmetric])

lemma round_even_le:
  assumes "q \<le> of_int k"
  shows "round_even q \<le> k"
proof (cases "q = of_int k")
  case True
  then show ?thesis by simp
next
  case False
  with assms have "q < of_int k" by simp
  then have "\<lfloor>q\<rfloor> < k" by (simp add: floor_less_iff)
  with round_even_bounds [of q] show ?thesis by simp
qed

lemma round_even_mono:
  assumes "q \<le> q'"
  shows "round_even q \<le> round_even q'"
proof (cases "\<lfloor>q\<rfloor> = \<lfloor>q'\<rfloor>")
  case True
  with assms have "q - of_int \<lfloor>q\<rfloor> \<le> q' - of_int \<lfloor>q'\<rfloor>" by simp
  with True show ?thesis
    by (auto simp: round_even_def Let_def)
next
  case False
  with assms have "\<lfloor>q\<rfloor> < \<lfloor>q'\<rfloor>"
    using floor_mono [of q q'] by simp
  with round_even_bounds [of q] round_even_bounds [of q'] show ?thesis by simp
qed

lemma ulp_exponent_mono: "y \<le> y' \<Longrightarrow> ulp_exponent y \<le> ulp_exponent y'"
  unfolding ulp_exponent_def bitlen_def
  by (intro nat_mono diff_right_mono) (simp add: floorlog_mono floor_mono nat_mono)

lemma round_scaled_le_power:
  assumes "y \<le> 2 ^ n" and "ulp_exponent y \<le> n"
  shows "round_scaled y \<le> 2 ^ n"
proof -
  let ?k = "ulp_exponent y"
  have pw: "(2::real) ^ n / 2 ^ ?k = 2 ^ (n - ?k)"
    using assms(2) by (simp add: power_diff)
  have "y / 2 ^ ?k \<le> 2 ^ n / 2 ^ ?k"
    using assms(1) by (simp add: divide_right_mono)
  also have "\<dots> = of_int (2 ^ (n - ?k))"
    unfolding pw by simp
  finally have "round_even (y / 2 ^ ?k) \<le> 2 ^ (n - ?k)"
    by (rule round_even_le)
  then have "real_of_int (round_even (y / 2 ^ ?k)) \<le> 2 ^ (n - ?k)"
    by (metis of_int_le_iff of_int_numeral of_int_power)
  then have "round_scaled y \<le> 2 ^ (n - ?k) * 2 ^ ?k"
    unfolding round_scaled_def by (simp add: mult_right_mono)
  also have "\<dots> = 2 ^ n"
    using assms(2) by (simp flip: power_add)
  finally show ?thesis .
qed

lemma round_scaled_ge_power:
  assumes "2 ^ n \<le> y" and "ulp_exponent y \<le> n"
  shows "2 ^ n \<le> round_scaled y"
proof -
  let ?k = "ulp_exponent y"
  have pw: "(2::real) ^ n / 2 ^ ?k = 2 ^ (n - ?k)"
    using assms(2) by (simp add: power_diff)
  have "of_int (2 ^ (n - ?k)) = (2::real) ^ n / 2 ^ ?k"
    unfolding pw by simp
  also have "\<dots> \<le> y / 2 ^ ?k"
    using assms(1) by (simp add: divide_right_mono)
  finally have "2 ^ (n - ?k) \<le> round_even (y / 2 ^ ?k)"
    by (rule round_even_ge)
  then have "(2::real) ^ (n - ?k) \<le> real_of_int (round_even (y / 2 ^ ?k))"
    by (metis of_int_le_iff of_int_numeral of_int_power)
  then have "2 ^ (n - ?k) * 2 ^ ?k \<le> round_scaled y"
    unfolding round_scaled_def by (simp add: mult_right_mono)
  moreover have "(2::real) ^ (n - ?k) * 2 ^ ?k = 2 ^ n"
    using assms(2) by (simp flip: power_add)
  ultimately show ?thesis by simp
qed

text \<open>Rounding is monotone: within one binade directly, across binades through the power of two between them.\<close>

lemma round_scaled_mono:
  assumes "y \<le> y'"
  shows "round_scaled y \<le> round_scaled y'"
proof (cases "ulp_exponent y = ulp_exponent y'")
  case True
  have "y / 2 ^ ulp_exponent y' \<le> y' / 2 ^ ulp_exponent y'"
    using assms by (simp add: divide_right_mono)
  then have "round_even (y / 2 ^ ulp_exponent y') \<le> round_even (y' / 2 ^ ulp_exponent y')"
    by (rule round_even_mono)
  then show ?thesis
    unfolding round_scaled_def True by (simp add: mult_right_mono)
next
  case False
  with ulp_exponent_mono [OF assms] have lt: "ulp_exponent y < ulp_exponent y'"
    by simp
  define b where "b = bitlen \<lfloor>y'\<rfloor>"
  define n where "n = nat (b - 1)"
  from lt have b54: "54 \<le> b"
    by (simp add: ulp_exponent_def b_def)
  have blt: "bitlen \<lfloor>y\<rfloor> \<le> b - 1"
    using lt b54 by (simp add: ulp_exponent_def b_def)
  have "b \<le> bitlen \<lfloor>y'\<rfloor>" by (simp add: b_def)
  then have "2 ^ n \<le> \<lfloor>y'\<rfloor>"
    using b54 by (simp add: bitlen_ge_iff_power n_def nat_diff_distrib)
  then have y': "2 ^ n \<le> y'"
    by (metis le_floor_iff of_int_numeral of_int_power)
  from blt have "0 \<le> b - 1 \<and> \<lfloor>y\<rfloor> < 2 ^ nat (b - 1)"
    by (rule iffD1 [OF bitlen_le_iff_power])
  then have "\<lfloor>y\<rfloor> < 2 ^ n"
    by (simp add: n_def)
  then have y: "y \<le> 2 ^ n"
    by (metis floor_less_iff less_eq_real_def of_int_numeral of_int_power)
  have k': "ulp_exponent y' \<le> n"
    using b54 by (simp add: ulp_exponent_def b_def n_def)
  with lt have k: "ulp_exponent y \<le> n" by simp
  from round_scaled_le_power [OF y k] round_scaled_ge_power [OF y' k']
  show ?thesis by simp
qed

lemma round_scaled_zero [simp]: "round_scaled 0 = 0"
  by (simp add: round_scaled_def)

lemma round_scaled_nonneg: "0 \<le> y \<Longrightarrow> 0 \<le> round_scaled y"
  using round_scaled_mono [of 0 y] by simp

lemma round_scaled_Ints: "round_scaled y \<in> \<int>"
  by (simp add: round_scaled_def)

lemma round_scaled_one: "round_scaled 1 = 1"
proof -
  have "ulp_exponent 1 = 0"
    by (simp add: ulp_exponent_def bitlen_alt_def)
  moreover have "round_even 1 = 1"
    using round_even_of_int [of 1] by simp
  ultimately show ?thesis
    by (simp add: round_scaled_def)
qed

lemma round_to_grid_nonneg_eq:
  "0 \<le> x \<Longrightarrow> round_to_grid N x = round_scaled (x * 2 ^ N) / 2 ^ N"
  by (cases "x = 0") (simp_all add: round_to_grid_def)

lemma round_to_grid_mono:
  assumes "0 \<le> x" and "x \<le> y"
  shows "round_to_grid N x \<le> round_to_grid N y"
proof -
  have "round_scaled (x * 2 ^ N) \<le> round_scaled (y * 2 ^ N)"
    using assms by (intro round_scaled_mono) simp
  with assms show ?thesis
    by (simp add: round_to_grid_nonneg_eq divide_right_mono)
qed

lemma round_to_grid_nonpos:
  assumes "x \<le> 0"
  shows "round_to_grid N x \<le> 0"
proof (cases "x = 0")
  case True
  then show ?thesis by (simp add: round_to_grid_def)
next
  case False
  define T where "T = round_scaled (\<bar>x\<bar> * 2 ^ N) / 2 ^ N"
  have "0 \<le> T"
    by (simp add: T_def round_scaled_nonneg)
  moreover from False assms have "sgn x = - 1"
    by (simp add: sgn_if)
  then have "round_to_grid N x = - T"
    by (simp add: round_to_grid_def T_def)
  ultimately show ?thesis by simp
qed

lemma round_to_grid_on_grid: "on_grid N (round_to_grid N x)"
proof -
  have "round_to_grid N x * 2 ^ N = sgn x * round_scaled (\<bar>x\<bar> * 2 ^ N)"
    by (simp add: round_to_grid_def)
  moreover have "sgn x \<in> \<int>"
    by (simp add: sgn_if)
  ultimately show ?thesis
    by (simp add: on_grid_def round_scaled_Ints)
qed

lemma round_to_grid_pos:
  assumes "on_grid N x" and "0 < x"
  shows "0 < round_to_grid N x"
proof -
  from assms(1) obtain n :: int where n: "x * 2 ^ N = of_int n"
    by (auto simp: on_grid_def elim: Ints_cases)
  from assms(2) have "0 < x * 2 ^ N" by simp
  with n have "1 \<le> x * 2 ^ N" by simp
  then have "round_scaled 1 \<le> round_scaled (x * 2 ^ N)"
    by (rule round_scaled_mono)
  then have "0 < round_scaled (x * 2 ^ N)"
    by (simp add: round_scaled_one)
  with assms(2) show ?thesis
    by (simp add: round_to_grid_nonneg_eq)
qed

text \<open>
  The value on a number of the normal range below \<open>2 ^ 53\<close>, for evaluation: \<open>j\<close> is the
  number of binary places of the doubles of its binade.
\<close>

lemma round_to_grid_normal:
  assumes "j \<le> N" and "2 ^ 52 \<le> x * 2 ^ j" and "x * 2 ^ j < 2 ^ 53"
  shows "round_to_grid N x = of_int (round_even (x * 2 ^ j)) / 2 ^ j"
proof -
  define k where "k = N - j"
  let ?y = "x * 2 ^ N"
  from assms(1) have N: "N = j + k" by (simp add: k_def)
  have y: "?y = x * 2 ^ j * 2 ^ k"
    by (simp add: N power_add)
  have "(0::real) < 2 ^ 52" by simp
  with assms(2) have "0 < x * 2 ^ j" by linarith
  then have x0: "0 \<le> x"
    by (simp add: zero_less_mult_iff)
  have "2 ^ 52 * 2 ^ k \<le> x * 2 ^ j * 2 ^ k"
    using assms(2) by (intro mult_right_mono) simp_all
  then have "(2::real) ^ (52 + k) \<le> ?y"
    by (simp only: y power_add)
  then have lo: "(2::int) ^ (52 + k) \<le> \<lfloor>?y\<rfloor>"
    by (metis le_floor_iff of_int_numeral of_int_power)
  have "x * 2 ^ j * 2 ^ k < 2 ^ 53 * 2 ^ k"
    using assms(3) by (intro mult_strict_right_mono) simp_all
  then have "?y < (2::real) ^ (53 + k)"
    by (simp only: y power_add)
  then have hi: "\<lfloor>?y\<rfloor> < 2 ^ (53 + k)"
    by (metis floor_less_iff of_int_numeral of_int_power)
  have "bitlen \<lfloor>?y\<rfloor> \<le> int (53 + k)"
    using hi by (simp only: bitlen_le_iff_power) (simp add: nat_add_distrib)
  moreover have "int (53 + k) \<le> bitlen \<lfloor>?y\<rfloor>"
    using lo by (simp only: bitlen_ge_iff_power) (simp add: nat_add_distrib)
  ultimately have "bitlen \<lfloor>?y\<rfloor> = int (53 + k)"
    by simp
  then have u: "ulp_exponent ?y = k"
    by (simp add: ulp_exponent_def)
  have "?y / 2 ^ k = x * 2 ^ j"
    by (simp add: y)
  with u have "round_scaled ?y = of_int (round_even (x * 2 ^ j)) * 2 ^ k"
    by (simp add: round_scaled_def)
  then have "round_scaled ?y / 2 ^ N = of_int (round_even (x * 2 ^ j)) / 2 ^ j"
    by (simp add: N power_add)
  with x0 show ?thesis
    by (simp only: round_to_grid_nonneg_eq)
qed

text \<open>The same facts for \<open>to_double\<close>.\<close>

lemma to_double_zero [simp]: "to_double 0 = 0"
  by (simp add: to_double_def round_to_grid_def)

lemma to_double_mono: "0 \<le> x \<Longrightarrow> x \<le> y \<Longrightarrow> to_double x \<le> to_double y"
  unfolding to_double_def by (rule round_to_grid_mono)

lemma to_double_nonneg: "0 \<le> x \<Longrightarrow> 0 \<le> to_double x"
  using to_double_mono [of 0 x] by simp

lemma to_double_on_grid: "on_grid 1074 (to_double x)"
  unfolding to_double_def by (rule round_to_grid_on_grid)

lemma to_double_normal:
  assumes "j \<le> 1074" and "2 ^ 52 \<le> x * 2 ^ j" and "x * 2 ^ j < 2 ^ 53"
  shows "to_double x = of_int (round_even (x * 2 ^ j)) / 2 ^ j"
  unfolding to_double_def using assms by (rule round_to_grid_normal)

lemma on_grid_of_int: "on_grid N (of_int n)"
proof -
  have "real_of_int n * 2 ^ N = of_int (n * 2 ^ N)" by simp
  then show ?thesis
    unfolding on_grid_def by (metis Ints_of_int)
qed

lemma on_grid_zero: "on_grid N 0"
  by (simp add: on_grid_def)

text \<open>The difference of two doubles rounds to a number of the same sign.\<close>

lemma float_sub_sign:
  assumes "on_grid 1074 a" and "on_grid 1074 b"
  shows "float_sub b a \<le> 0 \<longleftrightarrow> b \<le> a"
proof (cases "b \<le> a")
  case True
  then show ?thesis
    by (simp add: float_sub_def to_double_def round_to_grid_nonpos)
next
  case False
  have "(b - a) * 2 ^ 1074 = b * 2 ^ 1074 - a * 2 ^ 1074"
    by (rule left_diff_distrib)
  with assms have "on_grid 1074 (b - a)"
    unfolding on_grid_def by (simp only: Ints_diff)
  moreover from False have "0 < b - a" by simp
  ultimately have "0 < to_double (b - a)"
    unfolding to_double_def by (rule round_to_grid_pos)
  with False show ?thesis
    by (simp add: float_sub_def)
qed

section \<open>Facts about the sort\<close>

lemma insert_by_insort_key:
  assumes "on_grid 1074 (f x)" and "\<forall>y \<in> set xs. on_grid 1074 (f y)"
  shows "insert_by (\<lambda>a b. float_sub (f b) (f a)) x xs = insort_key (\<lambda>a. - f a) x xs"
  using assms by (induction xs) (simp_all add: float_sub_sign)

lemma js_sort_sort_key:
  assumes "\<forall>y \<in> set xs. on_grid 1074 (f y)"
  shows "js_sort (\<lambda>a b. float_sub (f b) (f a)) xs = sort_key (\<lambda>a. - f a) xs"
  using assms
proof (induction xs)
  case Nil
  then show ?case by (simp add: js_sort_def)
next
  case (Cons x xs)
  then have "js_sort (\<lambda>a b. float_sub (f b) (f a)) xs = sort_key (\<lambda>a. - f a) xs"
    by simp
  moreover have "js_sort (\<lambda>a b. float_sub (f b) (f a)) (x # xs)
      = insert_by (\<lambda>a b. float_sub (f b) (f a)) x (js_sort (\<lambda>a b. float_sub (f b) (f a)) xs)"
    by (simp add: js_sort_def)
  moreover have "insert_by (\<lambda>a b. float_sub (f b) (f a)) x (sort_key (\<lambda>a. - f a) xs)
      = insort_key (\<lambda>a. - f a) x (sort_key (\<lambda>a. - f a) xs)"
    using Cons.prems by (intro insert_by_insort_key) simp_all
  ultimately show ?case
    by (simp add: sort_key_def)
qed

lemma js_sort_by_score_desc:
  assumes "\<forall>a \<in> set xs. on_grid 1074 (score_or_zero a)"
  shows "js_sort by_score_desc xs = sort_key (\<lambda>a. - score_or_zero a) xs"
proof -
  have "by_score_desc = (\<lambda>a b. float_sub (score_or_zero b) (score_or_zero a))"
    by (intro ext) (simp add: by_score_desc_def)
  then show ?thesis
    using js_sort_sort_key [OF assms] by simp
qed

section \<open>Facts about scoring\<close>

lemma to_double_08: "to_double 0.8 = 3602879701896397 / 2 ^ 52"
  by (subst to_double_normal [where j = 53]) (simp_all add: round_even_def)

lemma to_double_02: "to_double 0.2 = 3602879701896397 / 2 ^ 54"
  by (subst to_double_normal [where j = 55]) (simp_all add: round_even_def)

lemma to_double_005: "to_double 0.05 = 3602879701896397 / 2 ^ 56"
  by (subst to_double_normal [where j = 57]) (simp_all add: round_even_def)

lemma to_double_07: "to_double 0.7 = 3152519739159347 / 2 ^ 52"
  by (subst to_double_normal [where j = 53]) (simp_all add: round_even_def)

lemma to_double_03: "to_double 0.3 = 5404319552844595 / 2 ^ 54"
  by (subst to_double_normal [where j = 54]) (simp_all add: round_even_def)

text \<open>The two literals are doubles, and their sum rounds to \<open>1\<close>.\<close>

lemma to_double_08_again: "to_double (3602879701896397 / 2 ^ 52) = 3602879701896397 / 2 ^ 52"
  by (subst to_double_normal [where j = 53]) (simp_all add: round_even_def)

lemma to_double_02_again: "to_double (3602879701896397 / 2 ^ 54) = 3602879701896397 / 2 ^ 54"
  by (subst to_double_normal [where j = 55]) (simp_all add: round_even_def)

lemma to_double_sum_literals:
  "to_double (3602879701896397 / 2 ^ 52 + 3602879701896397 / 2 ^ 54) = 1"
  by (subst to_double_normal [where j = 52]) (simp_all add: round_even_def)

text \<open>The score of the draws \<open>0\<close>, \<open>1/2\<close> and \<open>1 - 2^-53\<close>.\<close>

lemma random_score_0: "random_score 0 = 3602879701896397 / 2 ^ 54"
  by (simp only: random_score_def float_add_def float_mul_def to_double_02 mult_zero_left
        to_double_zero add_0 to_double_02_again)

lemma random_score_half: "random_score (1/2) = 1351079888211149 / 2 ^ 51"
proof -
  have "to_double (1/2 * (3602879701896397 / 2 ^ 52)) = 3602879701896397 / 2 ^ 53"
    by (subst to_double_normal [where j = 54]) (simp_all add: round_even_def)
  moreover have "to_double (3602879701896397 / 2 ^ 53 + 3602879701896397 / 2 ^ 54)
      = 1351079888211149 / 2 ^ 51"
    by (subst to_double_normal [where j = 53]) (simp_all add: round_even_def)
  ultimately show ?thesis
    by (simp only: random_score_def float_add_def float_mul_def to_double_02 to_double_08)
qed

lemma random_score_last: "random_score (1 - 1 / 2 ^ 53) = 1"
proof -
  have "to_double ((1 - 1 / 2 ^ 53) * (3602879701896397 / 2 ^ 52)) = 7205759403792793 / 2 ^ 53"
    by (subst to_double_normal [where j = 53]) (simp_all add: round_even_def)
  moreover have "to_double (7205759403792793 / 2 ^ 53 + 3602879701896397 / 2 ^ 54) = 1"
    by (subst to_double_normal [where j = 53]) (simp_all add: round_even_def)
  ultimately show ?thesis
    by (simp only: random_score_def float_add_def float_mul_def to_double_02 to_double_08)
qed

text \<open>The range of the score of a draw in \<open>[0, 1)\<close>.\<close>

lemma random_score_bounds:
  assumes "0 \<le> r" and "r < 1"
  shows "to_double 0.2 \<le> random_score r \<and> random_score r \<le> 1"
proof -
  let ?c8 = "3602879701896397 / 2 ^ 52 :: real"
  let ?c2 = "3602879701896397 / 2 ^ 54 :: real"
  let ?m = "to_double (r * ?c8)"
  from assms have "0 \<le> r * ?c8" and "r * ?c8 \<le> ?c8"
    by simp_all
  then have "0 \<le> ?m" and "?m \<le> ?c8"
    using to_double_nonneg [of "r * ?c8"] to_double_mono [of "r * ?c8" ?c8]
    by (simp_all only: to_double_08_again)
  then have "0 \<le> ?c2" and "?c2 \<le> ?m + ?c2" and "?m + ?c2 \<le> ?c8 + ?c2"
    by simp_all
  then have "to_double ?c2 \<le> to_double (?m + ?c2)"
    and "to_double (?m + ?c2) \<le> to_double (?c8 + ?c2)"
    by (simp_all only: to_double_mono)
  then have "?c2 \<le> to_double (?m + ?c2)" and "to_double (?m + ?c2) \<le> 1"
    by (simp_all only: to_double_02_again to_double_sum_literals)
  then show ?thesis
    by (simp only: random_score_def float_add_def float_mul_def to_double_02 to_double_08)
qed

lemma random_score_on_grid: "on_grid 1074 (random_score r)"
  by (simp only: random_score_def float_add_def to_double_on_grid)

lemma fst_score_articles_Cons:
  "fst (score_articles g (a # as)) =
     a\<lparr>relevance_score := Some (random_score (g 0))\<rparr> # fst (score_articles (\<lambda>n. g (Suc n)) as)"
  by (simp add: Math_random_def split: prod.splits)

text \<open>The scored list, without the threaded state: article \<open>i\<close> gets draw \<open>i\<close>.\<close>

lemma score_articles_nth:
  "fst (score_articles g as) =
     map (\<lambda>i. (as ! i)\<lparr>relevance_score := Some (random_score (g i))\<rparr>) [0..<length as]"
proof (induction as arbitrary: g)
  case Nil
  then show ?case by simp
next
  case (Cons a as)
  have "fst (score_articles g (a # as)) =
          a\<lparr>relevance_score := Some (random_score (g 0))\<rparr> # fst (score_articles (\<lambda>n. g (Suc n)) as)"
    by (rule fst_score_articles_Cons)
  also have "\<dots> = a\<lparr>relevance_score := Some (random_score (g 0))\<rparr> #
      map (\<lambda>i. (as ! i)\<lparr>relevance_score := Some (random_score (g (Suc i)))\<rparr>) [0..<length as]"
    by (simp add: Cons.IH)
  also have "\<dots> = map (\<lambda>i. ((a # as) ! i)\<lparr>relevance_score := Some (random_score (g i))\<rparr>)
                      [0..<length (a # as)]"
    by (simp add: upt_conv_Cons map_Suc_upt [symmetric] del: upt_Suc)
  finally show ?case .
qed

lemma length_score_articles: "length (fst (score_articles g as)) = length as"
  by (simp add: score_articles_nth)

lemma score_articles_on_grid:
  "\<forall>a \<in> set (fst (score_articles g as)). on_grid 1074 (score_or_zero a)"
  by (auto simp: score_articles_nth score_or_zero_def random_score_on_grid)

lemma score_articles_bounds:
  assumes "unit_draws g" and "a \<in> set (fst (score_articles g as))"
  shows "\<exists>s. relevance_score a = Some s \<and> to_double 0.2 \<le> s \<and> s \<le> 1"
proof -
  from assms(2) obtain i where a: "a = (as ! i)\<lparr>relevance_score := Some (random_score (g i))\<rparr>"
    by (auto simp: score_articles_nth)
  from assms(1) have "0 \<le> g i" and "g i < 1"
    by (simp_all add: unit_draws_def)
  then have "to_double 0.2 \<le> random_score (g i) \<and> random_score (g i) \<le> 1"
    by (rule random_score_bounds)
  with a show ?thesis by simp
qed

lemma fst_rankAndFilterArticles:
  "fst (rankAndFilterArticles g as ui up uh opts) =
     sort_key (\<lambda>a. - score_or_zero a) (fst (score_articles g as))"
proof -
  obtain scored g' where s: "score_articles g as = (scored, g')"
    by (cases "score_articles g as")
  with js_sort_by_score_desc [OF score_articles_on_grid, of g as] show ?thesis
    by (simp add: rankAndFilterArticles_def)
qed


section \<open>Evaluating the concrete inputs\<close>

lemma Math_random_draws_from [simp]:
  "Math_random (draws_from (r # rs)) = (r, draws_from rs)"
  "Math_random (draws_from []) = (0, draws_from [])"
  by (auto simp: Math_random_def draws_from_def fun_eq_iff)

lemma unit_draws_draws_from:
  "(\<forall>r \<in> set rs. 0 \<le> r \<and> r < 1) \<Longrightarrow> unit_draws (draws_from rs)"
  by (simp add: unit_draws_def draws_from_def)

lemma largest_draw_is_double: "to_double largest_draw = largest_draw"
  unfolding largest_draw_def
  by (subst to_double_normal [where j = 53]) (simp_all add: round_even_def)

lemma random_score_largest_draw: "random_score largest_draw = 1"
  unfolding largest_draw_def by (rule random_score_last)

lemmas rank_eval =
  fst_rankAndFilterArticles sample_article_def score_or_zero_def
  random_score_0 random_score_half random_score_largest_draw

section \<open>Ranking: the claims\<close>

text \<open>
  Claim C1 (determinism of ranking). The claim asks that two calls of
  \<open>rankAndFilterArticles\<close>, and of \<open>calculateRelevanceScore\<close>, with identical articles,
  interests, portfolio, history and options give identical scores and order. The code
  draws every score from \<^verbatim>\<open>Math.random()\<close>: with the same two articles and the same user
  data, the draws \<open>0, 1/2\<close> rank \<open>b\<close> before \<open>a\<close> and the draws \<open>1/2, 0\<close> rank \<open>a\<close> before
  \<open>b\<close>; the score of one article is the double \<open>0.2\<close> on one call and the double
  \<open>0.6000000000000001\<close> on another.
\<close>

theorem rank_depends_on_random_draws:
  "map article_id (fst (rankAndFilterArticles (draws_from [0, 1/2])
        [sample_article ''a'' 100, sample_article ''b'' 200]
        ([]::unit list) ([]::unit list) ([]::unit list) (options_min 0))) = [''b'', ''a''] \<and>
   map article_id (fst (rankAndFilterArticles (draws_from [1/2, 0])
        [sample_article ''a'' 100, sample_article ''b'' 200]
        ([]::unit list) ([]::unit list) ([]::unit list) (options_min 0))) = [''a'', ''b''] \<and>
   fst (calculateRelevanceScore (draws_from [0]) (sample_article ''a'' 100)
        ([]::unit list) ([]::unit list) ([]::unit list)) = 3602879701896397 / 2 ^ 54 \<and>
   fst (calculateRelevanceScore (draws_from [1/2]) (sample_article ''a'' 100)
        ([]::unit list) ([]::unit list) ([]::unit list)) = 1351079888211149 / 2 ^ 51"
  by (simp add: rank_eval calculateRelevanceScore_def)

text \<open>
  Claim C2 (minimum-score filter). The claim asks that an article whose score is strictly
  below \<open>minRelevanceScore\<close> is absent from the result. The code accepts the option and
  never reads it: with \<open>minRelevanceScore = 1/2\<close> and a draw of \<open>0\<close> the only article
  scores the double \<open>0.2\<close>, below the threshold, and is returned.
\<close>

theorem minRelevanceScore_not_applied:
  "minRelevanceScore (options_min (1/2)) = Some (1/2) \<and>
   map relevance_score (fst (rankAndFilterArticles (draws_from [0]) [sample_article ''a'' 0]
        ([]::unit list) ([]::unit list) ([]::unit list) (options_min (1/2))))
     = [Some (3602879701896397 / 2 ^ 54)] \<and>
   (3602879701896397 / 2 ^ 54 :: real) < 1/2"
  by (simp add: rank_eval options_min_def)

text \<open>
  What the code does for every input: whatever the options are, the result holds every
  input article exactly once, article \<open>i\<close> carrying the score computed from draw \<open>i\<close>.
\<close>

lemma rank_keeps_every_article:
  "mset (fst (rankAndFilterArticles g articles ui up uh options)) =
   mset (map (\<lambda>i. (articles ! i)\<lparr>relevance_score := Some (random_score (g i))\<rparr>)
           [0..<length articles])"
  by (simp add: fst_rankAndFilterArticles score_articles_nth)

text \<open>
  Claim C3 (order and tie-break), as stated: articles with equal scores are ordered by
  publication time descending, then by identifier. It fails: two articles that both score
  \<open>0.6000000000000001\<close> come out in input order, the one published at \<open>100\<close> before the
  one published at \<open>200\<close>.
\<close>

theorem tie_break_counterexample:
  "map article_id (fst (rankAndFilterArticles (draws_from [1/2, 1/2])
        [sample_article ''a'' 100, sample_article ''b'' 200]
        ([]::unit list) ([]::unit list) ([]::unit list) (options_min 0))) = [''a'', ''b''] \<and>
   map relevance_score (fst (rankAndFilterArticles (draws_from [1/2, 1/2])
        [sample_article ''a'' 100, sample_article ''b'' 200]
        ([]::unit list) ([]::unit list) ([]::unit list) (options_min 0)))
     = [Some (1351079888211149 / 2 ^ 51), Some (1351079888211149 / 2 ^ 51)] \<and>
   map published_at (fst (rankAndFilterArticles (draws_from [1/2, 1/2])
        [sample_article ''a'' 100, sample_article ''b'' 200]
        ([]::unit list) ([]::unit list) ([]::unit list) (options_min 0))) = [100, 200]"
  by (simp add: rank_eval)

text \<open>
  Claim C3, amended: the result is sorted by relevance score descending, and the articles
  that share a score \<open>k\<close> appear in the order they had in the input (the sort is stable);
  publication time and identifier play no part.
\<close>

theorem rank_sorted_stable:
  "sorted_wrt (\<lambda>a b. score_or_zero a \<ge> score_or_zero b)
      (fst (rankAndFilterArticles g articles ui up uh options)) \<and>
   filter (\<lambda>a. score_or_zero a = k) (fst (rankAndFilterArticles g articles ui up uh options)) =
   filter (\<lambda>a. score_or_zero a = k)
     (map (\<lambda>i. (articles ! i)\<lparr>relevance_score := Some (random_score (g i))\<rparr>)
        [0..<length articles])"
proof -
  let ?scored = "fst (score_articles g articles)"
  let ?res = "sort_key (\<lambda>a. - score_or_zero a) ?scored"
  have "sorted (map (\<lambda>a. - score_or_zero a) ?res)"
    by (rule sorted_sort_key)
  then have "sorted_wrt (\<lambda>a b. score_or_zero a \<ge> score_or_zero b) ?res"
    by (simp add: sorted_wrt_map)
  moreover have "filter (\<lambda>a. score_or_zero a = k) ?res = filter (\<lambda>a. score_or_zero a = k) ?scored"
    using sort_key_stable [of "\<lambda>a. - score_or_zero a" "- k" ?scored] by simp
  ultimately show ?thesis
    by (simp add: fst_rankAndFilterArticles score_articles_nth)
qed

text \<open>
  Claim C10 (range of the scores), as stated: every score lies in the half-open interval
  \<open>[0.2, 1.0)\<close>. It fails at the upper end: for the draw \<open>1 - 2^-53\<close>, the largest double
  below \<open>1\<close>, the product rounds to \<open>0.7999999999999999\<close> and the sum with \<open>0.2\<close> lies
  halfway between two doubles and rounds to \<open>1\<close>.
\<close>

theorem score_reaches_one:
  "0 \<le> largest_draw \<and> largest_draw < 1 \<and> to_double largest_draw = largest_draw \<and>
   map relevance_score (fst (rankAndFilterArticles (draws_from [largest_draw])
        [sample_article ''a'' 0] ([]::unit list) ([]::unit list) ([]::unit list)
        (handler_options 168 False \<lparr>processingTime = 0, algorithmsUsed = [''basic-ranking'']\<rparr>)))
     = [Some 1]"
proof -
  have "0 \<le> largest_draw \<and> largest_draw < 1"
    by (simp add: largest_draw_def)
  moreover have "map relevance_score (fst (rankAndFilterArticles (draws_from [largest_draw])
        [sample_article ''a'' 0] ([]::unit list) ([]::unit list) ([]::unit list)
        (handler_options 168 False \<lparr>processingTime = 0, algorithmsUsed = [''basic-ranking'']\<rparr>)))
     = [Some 1]"
    by (simp add: rank_eval)
  ultimately show ?thesis
    by (simp only: largest_draw_is_double)
qed

text \<open>
  Claim C10, amended: when every draw of the random source lies in \<open>[0, 1)\<close>, every score
  that \<open>rankAndFilterArticles\<close> assigns lies in the closed interval \<open>[0.2, 1.0]\<close>, whatever
  the articles, the user data and the options are; the handler passes the threshold
  \<open>0.05\<close>, and every score strictly exceeds it; and the result is as long as the input, so
  no article is excluded.
\<close>

theorem relevance_scores_bounded:
  assumes "unit_draws g"
  shows "length (fst (rankAndFilterArticles g articles ui up uh options)) = length articles
    \<and> minRelevanceScore (handler_options max_age include_bookmarks ctx) = Some (to_double 0.05)
    \<and> (\<forall>a \<in> set (fst (rankAndFilterArticles g articles ui up uh options)).
          \<exists>s. relevance_score a = Some s \<and> 0.2 \<le> s \<and> s \<le> 1 \<and> to_double 0.05 < s)"
proof -
  let ?res = "fst (rankAndFilterArticles g articles ui up uh options)"
  have len: "length ?res = length articles"
    by (simp add: fst_rankAndFilterArticles length_score_articles)
  have thr: "minRelevanceScore (handler_options max_age include_bookmarks ctx)
      = Some (to_double 0.05)"
    by (simp add: handler_options_def)
  have lit: "(0.2::real) \<le> to_double 0.2" and low: "to_double 0.05 < to_double 0.2"
    unfolding to_double_02 to_double_005 by simp_all
  have "\<exists>s. relevance_score a = Some s \<and> 0.2 \<le> s \<and> s \<le> 1 \<and> to_double 0.05 < s"
    if "a \<in> set ?res" for a
  proof -
    from that have "a \<in> set (fst (score_articles g articles))"
      by (simp add: fst_rankAndFilterArticles)
    with assms obtain s where s: "relevance_score a = Some s" "to_double 0.2 \<le> s" "s \<le> 1"
      using score_articles_bounds by blast
    from s(2) lit low have "0.2 \<le> s" and "to_double 0.05 < s"
      by linarith+
    with s show ?thesis by blast
  qed
  with len thr show ?thesis by blast
qed

text \<open>
  Claim C10 at a concrete input: one article and the draw \<open>1/2\<close>, which lies in \<open>[0, 1)\<close>;
  the article is returned with the score \<open>0.6000000000000001\<close>.
\<close>

theorem relevance_scores_bounded_witness:
  "unit_draws (draws_from [1/2]) \<and>
   length (fst (rankAndFilterArticles (draws_from [1/2]) [sample_article ''a'' 0]
      ([]::unit list) ([]::unit list) ([]::unit list) (options_min (1/2)))) = 1 \<and>
   map relevance_score (fst (rankAndFilterArticles (draws_from [1/2]) [sample_article ''a'' 0]
      ([]::unit list) ([]::unit list) ([]::unit list) (options_min (1/2))))
     = [Some (1351079888211149 / 2 ^ 51)]"
proof -
  have h: "unit_draws (draws_from [1/2])"
    by (rule unit_draws_draws_from) simp
  from relevance_scores_bounded [OF h, of "[sample_article ''a'' 0]" "[]::unit list"
      "[]::unit list" "[]::unit list" "options_min (1/2)"]
  have "length (fst (rankAndFilterArticles (draws_from [1/2]) [sample_article ''a'' 0]
      ([]::unit list) ([]::unit list) ([]::unit list) (options_min (1/2)))) = 1"
    by simp
  with h show ?thesis by (simp add: rank_eval)
qed

section \<open>The latest mode\<close>

lemma js_sort_by_published_desc:
  "js_sort by_published_desc xs = sort_key (\<lambda>a. - real_of_int (published_at a)) xs"
proof -
  have "by_published_desc
      = (\<lambda>a b. float_sub (real_of_int (published_at b)) (real_of_int (published_at a)))"
    by (intro ext) (simp add: by_published_desc_def)
  moreover have "\<forall>a \<in> set xs. on_grid 1074 (real_of_int (published_at a))"
    by (simp add: on_grid_of_int)
  ultimately show ?thesis
    using js_sort_sort_key [of xs "\<lambda>a. real_of_int (published_at a)"] by simp
qed

lemma insort_key_map_invariant:
  assumes "\<And>x. k (h x) = k x"
  shows "insort_key k (h x) (map h xs) = map h (insort_key k x xs)"
  using assms by (induction xs) simp_all

lemma sort_key_map_invariant:
  assumes "\<And>x. k (h x) = k x"
  shows "sort_key k (map h xs) = map h (sort_key k xs)"
  using assms by (induction xs) (simp_all add: insort_key_map_invariant)

lemma fst_rankedArticles_Latest:
  "fst (rankedArticles Latest g articles ui up uh max_age include_bookmarks ctx) =
     sort_key (\<lambda>a. - real_of_int (published_at a)) articles"
  by (simp add: rankedArticles_def js_sort_by_published_desc)

text \<open>
  Claim C4 (\<^verbatim>\<open>sortBy=latest\<close>). In the latest mode the handler draws no random number and
  attaches no score: the ranked list is the input list reordered, sorted by publication
  time descending, so no article stands before one that was published later. The list
  does not depend on the random source, the user data or the handler's parameters, and
  changing the scores the articles carry changes nothing but those scores.
\<close>

theorem latest_orders_by_publication_time:
  "snd (rankedArticles Latest g articles ui up uh max_age include_bookmarks ctx) = g \<and>
   mset (fst (rankedArticles Latest g articles ui up uh max_age include_bookmarks ctx))
     = mset articles \<and>
   sorted_wrt (\<lambda>a b. published_at a \<ge> published_at b)
     (fst (rankedArticles Latest g articles ui up uh max_age include_bookmarks ctx)) \<and>
   (\<forall>i j. i < j \<and>
      j < length (fst (rankedArticles Latest g articles ui up uh max_age include_bookmarks ctx))
      \<longrightarrow> \<not> published_at
               (fst (rankedArticles Latest g articles ui up uh max_age include_bookmarks ctx) ! i)
             < published_at
               (fst (rankedArticles Latest g articles ui up uh max_age include_bookmarks ctx) ! j)) \<and>
   fst (rankedArticles Latest g' (map (relevance_score_update f) articles) ui' up' uh'
          max_age' include_bookmarks' ctx')
     = map (relevance_score_update f)
         (fst (rankedArticles Latest g articles ui up uh max_age include_bookmarks ctx))"
proof -
  let ?res = "sort_key (\<lambda>a. - real_of_int (published_at a)) articles"
  have "sorted (map (\<lambda>a. - real_of_int (published_at a)) ?res)"
    by (rule sorted_sort_key)
  then have sorted: "sorted_wrt (\<lambda>a b. published_at a \<ge> published_at b) ?res"
    by (simp add: sorted_wrt_map)
  then have nth: "\<forall>i j. i < j \<and> j < length ?res
      \<longrightarrow> \<not> published_at (?res ! i) < published_at (?res ! j)"
    unfolding sorted_wrt_iff_nth_less by (meson not_less)
  have indep: "sort_key (\<lambda>a. - real_of_int (published_at a)) (map (relevance_score_update f) articles)
      = map (relevance_score_update f) ?res"
    by (rule sort_key_map_invariant) simp
  have state: "snd (rankedArticles Latest g articles ui up uh max_age include_bookmarks ctx) = g"
    by (simp add: rankedArticles_def)
  show ?thesis
    unfolding fst_rankedArticles_Latest
    using state sorted nth indep by simp
qed

text \<open>
  Claim C4 at a concrete input: of two articles published at \<open>100\<close> and \<open>200\<close>, the later
  one comes first, and neither gets a score.
\<close>

theorem latest_orders_by_publication_time_witness:
  "map article_id (fst (rankedArticles Latest (draws_from [1/2, 0])
      [sample_article ''a'' 100, sample_article ''b'' 200]
      ([]::unit list) ([]::unit list) ([]::unit list) 168 False
      \<lparr>processingTime = 0, algorithmsUsed = []\<rparr>)) = [''b'', ''a''] \<and>
   map relevance_score (fst (rankedArticles Latest (draws_from [1/2, 0])
      [sample_article ''a'' 100, sample_article ''b'' 200]
      ([]::unit list) ([]::unit list) ([]::unit list) 168 False
      \<lparr>processingTime = 0, algorithmsUsed = []\<rparr>)) = [None, None] \<and>
   \<not> published_at (fst (rankedArticles Latest (draws_from [1/2, 0])
      [sample_article ''a'' 100, sample_article ''b'' 200]
      ([]::unit list) ([]::unit list) ([]::unit list) 168 False
      \<lparr>processingTime = 0, algorithmsUsed = []\<rparr>) ! 0)
     < published_at (fst (rankedArticles Latest (draws_from [1/2, 0])
      [sample_article ''a'' 100, sample_article ''b'' 200]
      ([]::unit list) ([]::unit list) ([]::unit list) 168 False
      \<lparr>processingTime = 0, algorithmsUsed = []\<rparr>) ! 1)"
proof -
  let ?res = "fst (rankedArticles Latest (draws_from [1/2, 0])
      [sample_article ''a'' 100, sample_article ''b'' 200]
      ([]::unit list) ([]::unit list) ([]::unit list) 168 False
      \<lparr>processingTime = 0, algorithmsUsed = []\<rparr>)"
  have ids: "map article_id ?res = [''b'', ''a'']" and scores: "map relevance_score ?res = [None, None]"
    by (simp_all add: fst_rankedArticles_Latest sample_article_def)
  then have len: "(0::nat) < 1 \<and> 1 < length ?res"
    by (metis length_map list.size(3) list.size(4) less_add_one One_nat_def add_0 lessI)
  from latest_orders_by_publication_time [of "draws_from [1/2, 0]"
      "[sample_article ''a'' 100, sample_article ''b'' 200]" "[]::unit list" "[]::unit list"
      "[]::unit list" 168 False "\<lparr>processingTime = 0, algorithmsUsed = []\<rparr>"]
  have "\<forall>i j. i < j \<and> j < length ?res
      \<longrightarrow> \<not> published_at (?res ! i) < published_at (?res ! j)"
    by blast
  with len have "\<not> published_at (?res ! 0) < published_at (?res ! 1)"
    by blast
  with ids scores show ?thesis by blast
qed

section \<open>Pagination\<close>

lemma slice_nonneg:
  assumes "0 \<le> s" and "s \<le> e"
  shows "slice xs s e = take (nat (e - s)) (drop (nat s) xs)"
proof (cases "s < int (length xs)")
  case True
  with assms have k: "(if s < 0 then max (int (length xs) + s) 0 else min s (int (length xs))) = s"
    by simp
  from assms have f: "(if e < 0 then max (int (length xs) + e) 0 else min e (int (length xs)))
      = min e (int (length xs))"
    by simp
  have "take (nat (min e (int (length xs)) - s)) (drop (nat s) xs)
      = take (nat (e - s)) (drop (nat s) xs)"
  proof (cases "e \<le> int (length xs)")
    case True
    then show ?thesis by (simp add: min_def)
  next
    case False
    then have "min e (int (length xs)) = int (length xs)" by simp
    moreover have "length (drop (nat s) xs) = nat (int (length xs) - s)"
      using assms by simp
    moreover have "nat (int (length xs) - s) \<le> nat (e - s)"
      using False by simp
    ultimately show ?thesis by simp
  qed
  then show ?thesis
    unfolding slice_def Let_def k f .
next
  case False
  with assms have "slice xs s e = []"
    by (simp add: slice_def Let_def min_def)
  moreover from False assms have "drop (nat s) xs = []"
    by simp
  ultimately show ?thesis by simp
qed

text \<open>
  Claim C5 (pagination). For a page number of at least \<open>1\<close> and a limit in \<open>[1, 100]\<close>, the
  page is the slice of the ranked list from \<open>(page - 1) * limit\<close> of length at most
  \<open>limit\<close>; \<open>hasMore\<close> holds exactly when \<open>page * limit < total\<close>; and a page that starts at
  or beyond the end of the list is empty with \<open>hasMore\<close> false. \<open>paginate\<close> has no error
  result.
\<close>

theorem paginate_page:
  assumes "1 \<le> page_no" and "1 \<le> per_page" and "per_page \<le> 100"
  shows "fst (paginate ranked page_no per_page)
           = take (nat per_page) (drop (nat ((page_no - 1) * per_page)) ranked) \<and>
         int (length (fst (paginate ranked page_no per_page))) \<le> per_page \<and>
         (hasMore (snd (paginate ranked page_no per_page))
            \<longleftrightarrow> page_no * per_page < int (length ranked)) \<and>
         total (snd (paginate ranked page_no per_page)) = length ranked \<and>
         (int (length ranked) \<le> (page_no - 1) * per_page
            \<longrightarrow> fst (paginate ranked page_no per_page) = []
                \<and> \<not> hasMore (snd (paginate ranked page_no per_page)))"
proof -
  let ?s = "(page_no - 1) * per_page"
  from assms have s0: "0 \<le> ?s" by simp
  from assms have se: "?s \<le> ?s + per_page" by simp
  have e: "?s + per_page = page_no * per_page"
    by (simp add: algebra_simps)
  have items: "fst (paginate ranked page_no per_page)
      = take (nat per_page) (drop (nat ?s) ranked)"
    using slice_nonneg [OF s0 se, of ranked] by (simp add: paginate_def Let_def)
  have more: "hasMore (snd (paginate ranked page_no per_page))
      \<longleftrightarrow> page_no * per_page < int (length ranked)"
    by (simp add: paginate_def Let_def e)
  have tot: "total (snd (paginate ranked page_no per_page)) = length ranked"
    by (simp add: paginate_def Let_def)
  have len: "int (length (fst (paginate ranked page_no per_page))) \<le> per_page"
    using assms by (simp add: items)
  have beyond: "fst (paginate ranked page_no per_page) = []
      \<and> \<not> hasMore (snd (paginate ranked page_no per_page))"
    if "int (length ranked) \<le> ?s"
  proof -
    from that s0 have "drop (nat ?s) ranked = []" by simp
    moreover from that assms have "\<not> page_no * per_page < int (length ranked)"
      unfolding e [symmetric] by simp
    ultimately show ?thesis by (simp add: items more)
  qed
  from items len more tot beyond show ?thesis by blast
qed

text \<open>
  Claim C5 at concrete inputs: five items with limit \<open>2\<close>; page \<open>2\<close> holds the third and
  fourth and has more, page \<open>4\<close> is empty and has no more.
\<close>

theorem paginate_page_witness:
  "(1::int) \<le> 2 \<and> (1::int) \<le> 2 \<and> (2::int) \<le> 100 \<and>
   fst (paginate [10, 20, 30, 40, 50 :: nat] 2 2) = [30, 40] \<and>
   hasMore (snd (paginate [10, 20, 30, 40, 50 :: nat] 2 2)) \<and>
   fst (paginate [10, 20, 30, 40, 50 :: nat] 4 2) = [] \<and>
   \<not> hasMore (snd (paginate [10, 20, 30, 40, 50 :: nat] 4 2))"
proof -
  have a: "(1::int) \<le> 2" and b: "(2::int) \<le> 100" and c: "(1::int) \<le> 4"
    by simp_all
  from paginate_page [OF a a b, of "[10, 20, 30, 40, 50 :: nat]"]
  have p2: "fst (paginate [10, 20, 30, 40, 50 :: nat] 2 2) = [30, 40]
      \<and> hasMore (snd (paginate [10, 20, 30, 40, 50 :: nat] 2 2))"
    by simp
  from paginate_page [OF c a b, of "[10, 20, 30, 40, 50 :: nat]"]
  have p4: "fst (paginate [10, 20, 30, 40, 50 :: nat] 4 2) = []
      \<and> \<not> hasMore (snd (paginate [10, 20, 30, 40, 50 :: nat] 4 2))"
    by simp
  from a b p2 p4 show ?thesis by simp
qed


section \<open>Query parameters\<close>

lemmas parse_eval =
  parse_request_def validatePagination_def parseInt_def parseFloat_def get_def or_default_def
  truthy_def isNaN_def is_space_def is_digit_def digit_of_def digits_value_def
  read_exponent_def pow10_def

lemma clamp_not_NaN:
  assumes "x \<noteq> NaN" and "lo \<le> hi"
  shows "\<exists>v. Math_max (Fin lo) (Math_min (Fin hi) x) = Fin v \<and> lo \<le> v \<and> v \<le> hi"
  using assms by (cases x) auto

lemma parseInt_168: "parseInt ''168'' = Fin 168"
  by (simp add: parse_eval)

lemma parse_request_clamps_filters:
  assumes "parse_request searchParams = Inr p"
  shows "(\<exists>v. maxAge p = Fin v \<and> 1 \<le> v \<and> v \<le> 720) \<and>
         (minSentiment p = None \<or> (\<exists>v. minSentiment p = Some (Fin v) \<and> - 1 \<le> v \<and> v \<le> 1))"
proof -
  let ?ms = "get searchParams ''minSentiment''"
  let ?ma = "get searchParams ''maxAge''"
  from assms have ok_ms: "\<not> (truthy ?ms \<and> isNaN (parseFloat (the ?ms)))"
    and ok_ma: "\<not> (truthy ?ma \<and> isNaN (parseInt (the ?ma)))"
    by (auto simp: parse_request_def Let_def split: prod.splits if_splits)
  from assms have ma: "maxAge p = Math_max (Fin 1) (Math_min (Fin 720) (parseInt (or_default ?ma ''168'')))"
    and ms: "minSentiment p = (if truthy ?ms
             then Some (Math_max (Fin (- 1)) (Math_min (Fin 1) (parseFloat (the ?ms)))) else None)"
    by (auto simp: parse_request_def Let_def split: prod.splits if_splits)
  have "parseInt (or_default ?ma ''168'') \<noteq> NaN"
    using ok_ma by (auto simp: or_default_def isNaN_def parseInt_168)
  then have A: "\<exists>v. maxAge p = Fin v \<and> 1 \<le> v \<and> v \<le> 720"
    unfolding ma by (intro clamp_not_NaN) simp_all
  have B: "minSentiment p = None \<or> (\<exists>v. minSentiment p = Some (Fin v) \<and> - 1 \<le> v \<and> v \<le> 1)"
  proof (cases "truthy ?ms")
    case True
    with ok_ms have "parseFloat (the ?ms) \<noteq> NaN" by (simp add: isNaN_def)
    then have "\<exists>v. Math_max (Fin (- 1)) (Math_min (Fin 1) (parseFloat (the ?ms))) = Fin v
        \<and> - 1 \<le> v \<and> v \<le> 1"
      by (intro clamp_not_NaN) simp_all
    with True show ?thesis by (simp add: ms)
  next
    case False
    then show ?thesis by (simp add: ms)
  qed
  from A B show ?thesis by blast
qed

text \<open>
  Claim C6 (clamping and rejection of malformed values). The claim asks that the effective
  page is at least \<open>1\<close> and the limit within \<open>[1, 100]\<close>, and that a non-numeric value is
  rejected. For \<^verbatim>\<open>?page=abc\<close> the code computes \<^verbatim>\<open>Math.max(1, NaN)\<close>, which is \<^verbatim>\<open>NaN\<close>,
  and goes on with it; likewise for \<^verbatim>\<open>?limit=abc\<close>. The same non-numeric text in
  \<^verbatim>\<open>maxAge\<close> or \<^verbatim>\<open>minSentiment\<close> is rejected with an error.
\<close>

theorem validatePagination_accepts_non_numeric_page:
  "validatePagination [(''page'', ''abc'')] = (NaN, Fin 20) \<and>
   validatePagination [(''limit'', ''abc'')] = (Fin 1, NaN) \<and>
   parse_request [(''page'', ''abc'')] =
     Inr \<lparr>page = NaN, limit = Fin 20, includeBookmarks = False, sortBy = Relevance,
          minSentiment = None, maxAge = Fin 168\<rparr> \<and>
   parse_request [(''maxAge'', ''abc'')] =
     Inl ''Invalid maxAge parameter: must be a number between 1 and 720'' \<and>
   parse_request [(''minSentiment'', ''abc'')] =
     Inl ''Invalid minSentiment parameter: must be a number between -1 and 1''"
  by (simp add: parse_eval)

section \<open>The cache\<close>

lemma getCachedUserInterests_apply_write:
  "getCachedUserInterests (apply_write stringify c w) u =
     (case w of
        CacheUserInterests u' d \<Rightarrow> if u' = u then Some d else getCachedUserInterests c u
      | CacheUserPortfolio u' d \<Rightarrow> getCachedUserInterests c u
      | CacheNewsArticles f d \<Rightarrow> getCachedUserInterests c u)"
  by (cases w)
     (simp_all add: getCachedUserInterests_def cacheUserInterests_def cacheUserPortfolio_def
        cacheNewsArticles_def Mapping.lookup_update')

lemma getCachedUserPortfolio_apply_write:
  "getCachedUserPortfolio (apply_write stringify c w) u =
     (case w of
        CacheUserInterests u' d \<Rightarrow> getCachedUserPortfolio c u
      | CacheUserPortfolio u' d \<Rightarrow> if u' = u then Some d else getCachedUserPortfolio c u
      | CacheNewsArticles f d \<Rightarrow> getCachedUserPortfolio c u)"
  by (cases w)
     (simp_all add: getCachedUserPortfolio_def cacheUserInterests_def cacheUserPortfolio_def
        cacheNewsArticles_def Mapping.lookup_update')

lemma getCachedNewsArticles_apply_write:
  "getCachedNewsArticles stringify (apply_write stringify c w) filters =
     (case w of
        CacheUserInterests u' d \<Rightarrow> getCachedNewsArticles stringify c filters
      | CacheUserPortfolio u' d \<Rightarrow> getCachedNewsArticles stringify c filters
      | CacheNewsArticles f d \<Rightarrow>
          if stringify f = stringify filters then Some d
          else getCachedNewsArticles stringify c filters)"
  by (cases w)
     (simp_all add: getCachedNewsArticles_def cacheUserInterests_def cacheUserPortfolio_def
        cacheNewsArticles_def Mapping.lookup_update')

text \<open>
  A read after a sequence of writes, from any cache: the most recent write to the entry
  decides, and without one the entry is as it was.
\<close>

lemma getCachedUserInterests_foldl:
  "getCachedUserInterests (foldl (apply_write stringify) c ws) u =
     (case last_interests_written ws u of
        Some d \<Rightarrow> Some d
      | None \<Rightarrow> getCachedUserInterests c u)"
proof (induction ws arbitrary: c)
  case Nil
  then show ?case by simp
next
  case (Cons w ws)
  show ?case
    by (simp add: Cons.IH getCachedUserInterests_apply_write
          split: option.splits cache_write.splits)
qed

lemma getCachedUserPortfolio_foldl:
  "getCachedUserPortfolio (foldl (apply_write stringify) c ws) u =
     (case last_portfolio_written ws u of
        Some d \<Rightarrow> Some d
      | None \<Rightarrow> getCachedUserPortfolio c u)"
proof (induction ws arbitrary: c)
  case Nil
  then show ?case by simp
next
  case (Cons w ws)
  show ?case
    by (simp add: Cons.IH getCachedUserPortfolio_apply_write
          split: option.splits cache_write.splits)
qed

lemma getCachedNewsArticles_foldl:
  "getCachedNewsArticles stringify (foldl (apply_write stringify) c ws) filters =
     (case last_articles_written stringify ws filters of
        Some d \<Rightarrow> Some d
      | None \<Rightarrow> getCachedNewsArticles stringify c filters)"
proof (induction ws arbitrary: c)
  case Nil
  then show ?case by simp
next
  case (Cons w ws)
  show ?case
    by (simp add: Cons.IH getCachedNewsArticles_apply_write
          split: option.splits cache_write.splits)
qed

lemma reads_of_empty_cache:
  "getCachedUserInterests Mapping.empty userId = None"
  "getCachedUserPortfolio Mapping.empty userId = None"
  "getCachedNewsArticles stringify Mapping.empty filters = None"
  by (simp_all add: getCachedUserInterests_def getCachedUserPortfolio_def
        getCachedNewsArticles_def)

text \<open>
  Claim C7 (cache round trip). For each of the three kinds of entry: a read after a write
  of the same key returns the value written; a read from a cache nothing was written to
  returns nothing; and after any sequence of writes, of any kind and to any keys, applied
  to a fresh cache or to any other, the read returns the value of the most recent write
  to that entry, and what the cache held before when there was none (nothing, for a fresh
  cache). A write to one entry therefore never changes what another entry holds, and no
  entry expires. Every read returns a value; none has an error result.
\<close>

theorem cache_round_trip:
  "getCachedUserInterests (cacheUserInterests c userId v) userId = Some v \<and>
   getCachedUserPortfolio (cacheUserPortfolio c userId v) userId = Some v \<and>
   getCachedNewsArticles stringify (cacheNewsArticles stringify c filters v) filters = Some v \<and>
   getCachedUserInterests (cacheUserInterests (cacheUserInterests c userId v) userId v') userId
     = Some v' \<and>
   getCachedUserInterests Mapping.empty userId = None \<and>
   getCachedUserPortfolio Mapping.empty userId = None \<and>
   getCachedNewsArticles stringify Mapping.empty filters = None \<and>
   getCachedUserInterests (after_writes stringify ws) userId = last_interests_written ws userId \<and>
   getCachedUserPortfolio (after_writes stringify ws) userId = last_portfolio_written ws userId \<and>
   getCachedNewsArticles stringify (after_writes stringify ws) filters
     = last_articles_written stringify ws filters \<and>
   getCachedUserInterests (foldl (apply_write stringify) c ws) userId
     = (case last_interests_written ws userId of
          Some d \<Rightarrow> Some d | None \<Rightarrow> getCachedUserInterests c userId) \<and>
   getCachedUserPortfolio (foldl (apply_write stringify) c ws) userId
     = (case last_portfolio_written ws userId of
          Some d \<Rightarrow> Some d | None \<Rightarrow> getCachedUserPortfolio c userId) \<and>
   getCachedNewsArticles stringify (foldl (apply_write stringify) c ws) filters
     = (case last_articles_written stringify ws filters of
          Some d \<Rightarrow> Some d | None \<Rightarrow> getCachedNewsArticles stringify c filters)"
proof -
  have trips: "getCachedUserInterests (cacheUserInterests c userId v) userId = Some v"
    "getCachedUserPortfolio (cacheUserPortfolio c userId v) userId = Some v"
    "getCachedNewsArticles stringify (cacheNewsArticles stringify c filters v) filters = Some v"
    "getCachedUserInterests (cacheUserInterests (cacheUserInterests c userId v) userId v') userId
       = Some v'"
    by (simp_all add: getCachedUserInterests_def cacheUserInterests_def getCachedUserPortfolio_def
        cacheUserPortfolio_def getCachedNewsArticles_def cacheNewsArticles_def)
  have fresh: "getCachedUserInterests (after_writes stringify ws) userId
      = last_interests_written ws userId"
    "getCachedUserPortfolio (after_writes stringify ws) userId
      = last_portfolio_written ws userId"
    "getCachedNewsArticles stringify (after_writes stringify ws) filters
      = last_articles_written stringify ws filters"
    unfolding after_writes_def getCachedUserInterests_foldl getCachedUserPortfolio_foldl
      getCachedNewsArticles_foldl
    by (simp_all add: reads_of_empty_cache split: option.splits)
  show ?thesis
    by (intro conjI trips fresh reads_of_empty_cache getCachedUserInterests_foldl
        getCachedUserPortfolio_foldl getCachedNewsArticles_foldl)
qed

section \<open>Data accessors\<close>

text \<open>
  Claim C8 (accessors on a fetch error). Whenever the answer to its query carries an
  error, each of the five accessors returns the empty list (the empty set for the
  bookmarks); none has an error result.
\<close>

theorem accessors_empty_on_error:
  "(error (si (user_interests_query userId)) \<noteq> None \<longrightarrow> fetchUserInterests si userId = []) \<and>
   (error (sp (user_portfolio_query userId)) \<noteq> None \<longrightarrow> fetchUserPortfolio sp userId = []) \<and>
   (error (sh (user_news_history_query userId n)) \<noteq> None
      \<longrightarrow> fetchUserNewsHistory sh userId n = []) \<and>
   (error (sn (news_articles_query filters now tz)) \<noteq> None
      \<longrightarrow> fetchNewsArticles sn filters now tz = []) \<and>
   (error (sb (user_bookmarks_query userId articleIds)) \<noteq> None
      \<longrightarrow> fetchUserBookmarks sb userId articleIds = {})"
  by (simp add: fetchUserInterests_def fetchUserPortfolio_def fetchUserNewsHistory_def
        fetchNewsArticles_def fetchUserBookmarks_def Let_def)

text \<open>
  Claim C8 at a concrete input: a client that answers every query with the error
  \<open>connection refused\<close>.
\<close>

theorem accessors_empty_on_error_witness:
  "error (failing_client ''connection refused'' (user_interests_query ''u1'')
          :: unit response) \<noteq> None \<and>
   fetchUserInterests (failing_client ''connection refused'') ''u1'' = ([] :: unit list) \<and>
   fetchUserPortfolio (failing_client ''connection refused'') ''u1'' = ([] :: unit list) \<and>
   fetchUserNewsHistory (failing_client ''connection refused'') ''u1'' 1000 = ([] :: unit list) \<and>
   fetchNewsArticles (failing_client ''connection refused'')
      \<lparr>f_limit = Some 200, f_maxAge = Some 168, f_page = None, f_minSentiment = None\<rparr> 0
      (fixed_zone 0) = [] \<and>
   fetchUserBookmarks (failing_client ''connection refused'') ''u1'' [''a1''] = {}"
proof -
  let ?c = "failing_client ''connection refused''"
  from accessors_empty_on_error [of "?c :: user_query \<Rightarrow> unit response" "''u1''"
      "?c :: user_query \<Rightarrow> unit response" "?c :: user_query \<Rightarrow> unit response" 1000 ?c
      "\<lparr>f_limit = Some 200, f_maxAge = Some 168, f_page = None, f_minSentiment = None\<rparr>" 0
      "fixed_zone 0" ?c "[''a1'']"]
  show ?thesis
    by (simp add: failing_client_def)
qed

subsection \<open>The candidate pool\<close>

lemma mapSentimentToScore_values:
  "mapSentimentToScore s =
     (if s = None then 0
      else if toLowerCase (the s) = ''positive'' then to_double 0.7
      else if toLowerCase (the s) = ''negative'' then - to_double 0.3 else 0)"
  by (simp add: mapSentimentToScore_def split: option.splits)

lemma answer_news_query_rows:
  assumes "data (answer_news_query store q) = Some rs" and "r \<in> set rs"
  shows "r \<in> set (stored_rows store) \<and> is_active r = eq_is_active q \<and>
         (\<forall>c. gte_published_at q = Some c \<longrightarrow> c \<le> row_published_at r)"
proof -
  from assms(1) have "failure store = None"
    by (auto simp: answer_news_query_def split: option.splits)
  with assms have "r \<in> set (filter (\<lambda>r. is_active r = eq_is_active q \<and>
                                  (case gte_published_at q of None \<Rightarrow> True
                                   | Some c \<Rightarrow> c \<le> row_published_at r)) (stored_rows store))"
    by (auto simp: answer_news_query_def Let_def dest!: in_set_takeD in_set_dropD)
  then show ?thesis by auto
qed

text \<open>
  What holds of the pool in every zone: every article returned is the conversion of a
  stored row that is active and, when a non-zero maximal age of \<open>h\<close> hours is given, was
  published no earlier than the cutoff that \<^verbatim>\<open>setHours\<close> yields. Its sentiment score is the
  one converted from the row's label, and it is at least \<open>minSentiment\<close> when that filter
  is given.
\<close>

lemma fetchNewsArticles_candidates:
  assumes "a \<in> set (fetchNewsArticles (answer_news_query store) filters now tz)"
  shows "\<exists>r \<in> set (stored_rows store).
           a = transformSupabaseToFlutter r \<and> is_active r \<and>
           (\<forall>h. f_maxAge filters = Some h \<and> h \<noteq> 0
                 \<longrightarrow> setHours_back tz now h \<le> row_published_at r) \<and>
           sentiment_score a = mapSentimentToScore (sentiment r) \<and>
           sentiment_score a \<in> {to_double 0.7, - to_double 0.3, 0} \<and>
           (\<forall>m. f_minSentiment filters = Some m \<longrightarrow> m \<le> sentiment_score a)"
proof -
  let ?q = "news_articles_query filters now tz"
  let ?resp = "answer_news_query store ?q"
  from assms have noerr: "error ?resp = None"
    by (auto simp: fetchNewsArticles_def Let_def split: if_splits)
  from assms noerr obtain rs where rs: "data ?resp = Some rs"
    by (cases "data ?resp") (auto simp: fetchNewsArticles_def Let_def split: option.splits)
  from assms noerr rs have a_in: "a \<in> set (map transformSupabaseToFlutter rs)"
    and ms: "\<forall>m. f_minSentiment filters = Some m \<longrightarrow> m \<le> sentiment_score a"
    by (auto simp: fetchNewsArticles_def Let_def split: option.splits)
  then obtain r where r: "r \<in> set rs" "a = transformSupabaseToFlutter r"
    by auto
  from answer_news_query_rows [OF rs r(1)]
  have stored: "r \<in> set (stored_rows store)" and act: "is_active r"
    and cut: "\<forall>c. gte_published_at ?q = Some c \<longrightarrow> c \<le> row_published_at r"
    by (simp_all add: news_articles_query_def Let_def)
  have age: "\<forall>h. f_maxAge filters = Some h \<and> h \<noteq> 0
      \<longrightarrow> setHours_back tz now h \<le> row_published_at r"
    using cut by (auto simp: news_articles_query_def Let_def)
  have sc: "sentiment_score a = mapSentimentToScore (sentiment r)"
    by (simp add: r(2) transformSupabaseToFlutter_def)
  have vals: "sentiment_score a \<in> {to_double 0.7, - to_double 0.3, 0}"
    unfolding sc by (simp add: mapSentimentToScore_def split: option.splits)
  from stored r(2) act age sc vals ms show ?thesis by blast
qed

text \<open>In a zone whose offset never changes the cutoff is exactly \<open>h\<close> hours back.\<close>

lemma setHours_back_fixed_zone: "setHours_back (fixed_zone off) now h = now - h * 3600000"
  by (simp add: setHours_back_def UTC_def LocalTime_def fixed_zone_def)

lemma toLowerCase_evals:
  "toLowerCase ''POSITIVE'' = ''positive''"
  "toLowerCase ''Positive'' = ''positive''"
  "toLowerCase ''positive'' = ''positive''"
  "toLowerCase ''negative'' = ''negative''"
  "toLowerCase ''neutral'' = ''neutral''"
  by code_simp+

text \<open>
  Of the four sample rows, read in UTC with a maximal age of \<open>24\<close> hours and a minimal
  sentiment of \<open>1/2\<close>, only the recent, active, positive one is returned.
\<close>

lemma fetchNewsArticles_sample_store:
  "map article_id
     (fetchNewsArticles (answer_news_query sample_store) sample_filters 200000000 (fixed_zone 0))
     = [''pos'']"
  by (simp add: fetchNewsArticles_def answer_news_query_def news_articles_query_def
      setHours_back_fixed_zone sample_store_def sample_filters_def sample_row_def
      transformSupabaseToFlutter_def mapSentimentToScore_def toLowerCase_evals truthy_def
      to_double_07 to_double_03)

text \<open>
  Claim C9 (candidate pool). The claim asks that an article older than \<open>maxAge\<close> hours
  never enters the pool. The code takes the cutoff from \<^verbatim>\<open>setHours\<close> on the local clock, so
  where the offset of the zone changes inside the window the cutoff is not \<open>maxAge\<close> hours
  back. In Central European time on 2024-10-30T12:00:00Z, three days after the end of
  summer time, with \<open>maxAge = 168\<close> the cutoff is \<open>169\<close> hours back, and the article
  published \<open>168.5\<close> hours ago is returned; read in UTC the same store returns nothing.
\<close>

theorem fetchNewsArticles_returns_older_than_maxAge:
  "f_maxAge week_filters = Some 168 \<and>
   map article_id
     (fetchNewsArticles (answer_news_query week_old_store) week_filters 1730289600000
        berlin_autumn_2024) = [''stale''] \<and>
   map published_at
     (fetchNewsArticles (answer_news_query week_old_store) week_filters 1730289600000
        berlin_autumn_2024) = [1729683000000] \<and>
   (1729683000000 :: int) < 1730289600000 - 168 * 3600000 \<and>
   setHours_back berlin_autumn_2024 1730289600000 168 = 1730289600000 - 169 * 3600000 \<and>
   fetchNewsArticles (answer_news_query week_old_store) week_filters 1730289600000
     (fixed_zone 0) = []"
  by (simp add: fetchNewsArticles_def answer_news_query_def news_articles_query_def
      setHours_back_def UTC_def LocalTime_def berlin_autumn_2024_def fixed_zone_def
      week_old_store_def week_filters_def sample_row_def transformSupabaseToFlutter_def)
end
